theory Spec2Isabelle
  imports
    Complex_Main
    "HOL-Library.Char_ord"
    "HOL-Library.List_Lexorder"
    "HOL-Library.Product_Lexorder"
    "HOL-Library.AList"
    "HOL-Library.Multiset"
begin

section \<open>Expense tracker: a shallow embedding of \<open>expense_tracker.py\<close>\<close>

text \<open>
  The program keeps a list of expense entries in the JSON document \<open>expenses.json\<close>,
  appends validated entries to it, lists the entries sorted by date and aggregates them
  into a monthly summary by category, which it can export as JSON and CSV.

  Conventions of the embedding.
  \<^item> Text is \<open>string\<close>; the functions on text below are those of Python's \<open>str\<close> on
    ASCII text.
  \<^item> Python's \<open>float\<close> values are exact rationals (\<open>rat\<close>): binary rounding, \<open>nan\<close> and
    \<open>inf\<close> are outside the embedding. The builtin \<open>float(text)\<close> is a parameter \<open>flt\<close> of the
    functions that call it: \<open>flt s = None\<close> stands for \<open>ValueError\<close>. \<open>float\<close> of a JSON
    integer too large for a double raises \<open>OverflowError\<close>, as in Python.
  \<^item> A file holds what \<open>json.load\<close> makes of it: a JSON value, or text it rejects;
    \<open>json.dump\<close> stores the value it is given.
  \<^item> Every function that touches the file system, the console or the clock takes the
    \<open>world\<close> and returns the new one, together with its return value or the exception
    it raises.
  \<^item> The decorator \<open>log_and_time\<close> (timing lines on the console and in \<open>app_log.txt\<close>) is
    not part of the embedding: the definitions are the bodies of the decorated functions.
\<close>

subsection \<open>Text\<close>

text \<open>\<open>str.strip()\<close>: the characters \<open>str.isspace\<close> accepts in the ASCII range.\<close>

definition is_space :: "char \<Rightarrow> bool" where
  "is_space c = (c \<in> set [CHR 0x09, CHR 0x0A, CHR 0x0B, CHR 0x0C, CHR 0x0D,
                            CHR 0x1C, CHR 0x1D, CHR 0x1E, CHR 0x1F, CHR 0x20])"

definition strip :: "string \<Rightarrow> string" where
  "strip s = rev (dropWhile is_space (rev (dropWhile is_space s)))"

text \<open>\<open>str.lower()\<close>.\<close>

definition lower_char :: "char \<Rightarrow> char" where
  "lower_char c =
     (case map_of (zip ''ABCDEFGHIJKLMNOPQRSTUVWXYZ'' ''abcdefghijklmnopqrstuvwxyz'') c of
        Some l \<Rightarrow> l
      | None \<Rightarrow> c)"

definition lower :: "string \<Rightarrow> string" where
  "lower s = map lower_char s"

text \<open>Decimal digits: \<open>int(text)\<close> on a string of digits, \<open>str(n)\<close> and zero padding.\<close>

definition is_digit :: "char \<Rightarrow> bool" where
  "is_digit c = (c \<in> set ''0123456789'')"

definition digit_val :: "char \<Rightarrow> nat" where
  "digit_val c = (case map_of (zip ''0123456789'' [0 ..< 10]) c of Some n \<Rightarrow> n | None \<Rightarrow> 0)"

definition digits_val :: "string \<Rightarrow> nat" where
  "digits_val s = foldl (\<lambda>n c. 10 * n + digit_val c) 0 s"

definition digit_char :: "nat \<Rightarrow> char" where
  "digit_char n = ''0123456789'' ! (n mod 10)"

function show_nat :: "nat \<Rightarrow> string" where
  "show_nat n = (if n < 10 then [digit_char n] else show_nat (n div 10) @ [digit_char n])"
  by pat_completeness auto
termination
  by (relation "measure id") auto

declare show_nat.simps [simp del]

definition show_int :: "int \<Rightarrow> string" where
  "show_int i = (if i < 0 then CHR ''-'' # show_nat (nat (- i)) else show_nat (nat i))"

definition pad :: "nat \<Rightarrow> nat \<Rightarrow> string" where
  "pad w n = replicate (w - length (show_nat n)) CHR ''0'' @ show_nat n"

subsection \<open>Dates and the clock\<close>

text \<open>
  A \<open>datetime.date\<close> is (year, month, day); Python compares dates as these triples,
  lexicographically, which is the order of the product type. \<open>date.min\<close> is 0001-01-01.
\<close>

type_synonym date = "nat \<times> nat \<times> nat"

definition date_min :: date where
  "date_min = (1, 1, 1)"

definition is_leap :: "nat \<Rightarrow> bool" where
  "is_leap y = (y mod 4 = 0 \<and> (y mod 400 = 0 \<or> y mod 100 \<noteq> 0))"

definition days_in_month :: "nat \<Rightarrow> nat \<Rightarrow> nat" where
  "days_in_month y m =
     (if m = 2 then (if is_leap y then 29 else 28)
      else if m \<in> {4, 6, 9, 11} then 30 else 31)"

text \<open>
  \<open>datetime.strptime(s, "%Y-%m-%d").date()\<close>. The format compiles to the regular expression
  \<^verbatim>\<open>(\d\d\d\d)-(1[0-2]|0[1-9]|[1-9])-(3[0-1]|[1-2]\d|0[1-9]|[1-9]| [1-9])\<close>,
  which has to match the whole text; the date then has to exist (year at least 1, day
  within the month). \<open>None\<close> stands for \<open>ValueError\<close>.
\<close>

definition month_field :: "string \<Rightarrow> nat option" where
  "month_field s =
     (case s of
        [a] \<Rightarrow> if a \<in> set ''123456789'' then Some (digit_val a) else None
      | [a, b] \<Rightarrow>
          if a = CHR ''1'' \<and> b \<in> set ''012'' then Some (10 + digit_val b)
          else if a = CHR ''0'' \<and> b \<in> set ''123456789'' then Some (digit_val b)
          else None
      | _ \<Rightarrow> None)"

definition day_field :: "string \<Rightarrow> nat option" where
  "day_field s =
     (case s of
        [a] \<Rightarrow> if a \<in> set ''123456789'' then Some (digit_val a) else None
      | [a, b] \<Rightarrow>
          if a = CHR ''3'' \<and> b \<in> set ''01'' then Some (30 + digit_val b)
          else if a \<in> set ''12'' \<and> is_digit b then Some (10 * digit_val a + digit_val b)
          else if a \<in> set ''0 '' \<and> b \<in> set ''123456789'' then Some (digit_val b)
          else None
      | _ \<Rightarrow> None)"

definition strptime :: "string \<Rightarrow> date option" where
  "strptime s =
     (case s of
        y1 # y2 # y3 # y4 # dash # rest \<Rightarrow>
          if list_all is_digit [y1, y2, y3, y4] \<and> dash = CHR ''-'' then
            (case dropWhile (\<lambda>c. c \<noteq> CHR ''-'') rest of
               [] \<Rightarrow> None
             | _ # ds \<Rightarrow>
                 (case (month_field (takeWhile (\<lambda>c. c \<noteq> CHR ''-'') rest), day_field ds) of
                    (Some m, Some d) \<Rightarrow>
                      (let y = digits_val [y1, y2, y3, y4] in
                       if 1 \<le> y \<and> d \<le> days_in_month y m then Some (y, m, d) else None)
                  | _ \<Rightarrow> None))
          else None
      | _ \<Rightarrow> None)"

text \<open>\<open>date.isoformat()\<close>: \<^verbatim>\<open>%04d-%02d-%02d\<close>.\<close>

definition isoformat :: "date \<Rightarrow> string" where
  "isoformat dt = (case dt of (y, m, d) \<Rightarrow> pad 4 y @ ''-'' @ pad 2 m @ ''-'' @ pad 2 d)"

text \<open>What \<open>datetime.now()\<close> returns: a date and a time of day.\<close>

record datetime =
  dt_date :: date
  dt_hour :: nat
  dt_minute :: nat
  dt_second :: nat
  dt_microsecond :: nat

text \<open>
  \<open>strftime("%Y%m%d_%H%M%S")\<close>, the timestamp of a backup's name (the year in four
  digits, as for every year a clock shows).
\<close>

definition stamp :: "datetime \<Rightarrow> string" where
  "stamp t =
     (case dt_date t of (y, m, d) \<Rightarrow>
        pad 4 y @ pad 2 m @ pad 2 d @ ''_'' @ pad 2 (dt_hour t) @ pad 2 (dt_minute t)
          @ pad 2 (dt_second t))"

text \<open>\<open>datetime.isoformat()\<close>; the microseconds are left out when they are zero.\<close>

definition datetime_isoformat :: "datetime \<Rightarrow> string" where
  "datetime_isoformat t =
     isoformat (dt_date t) @ ''T'' @ pad 2 (dt_hour t) @ '':'' @ pad 2 (dt_minute t) @ '':''
       @ pad 2 (dt_second t)
       @ (if dt_microsecond t = 0 then [] else ''.'' @ pad 6 (dt_microsecond t))"

text \<open>\<open>calendar.month_name[month]\<close> for a month in 1..12.\<close>

definition month_name :: "int \<Rightarrow> string" where
  "month_name m =
     [''January'', ''February'', ''March'', ''April'', ''May'', ''June'', ''July'',
      ''August'', ''September'', ''October'', ''November'', ''December''] ! nat (m - 1)"

subsection \<open>Numbers\<close>

text \<open>\<open>round(x, 2)\<close>: to the nearest multiple of 1/100, a tie to the even one.\<close>

definition round_half_even :: "rat \<Rightarrow> int" where
  "round_half_even x =
     (let f = \<lfloor>x\<rfloor>; r = x - of_int f in
      if r < 1 / 2 then f else if 1 / 2 < r then f + 1 else if even f then f else f + 1)"

definition round2 :: "rat \<Rightarrow> rat" where
  "round2 x = of_int (round_half_even (x * 100)) / 100"

subsection \<open>JSON values, exceptions, the world\<close>

text \<open>
  What \<open>json.load\<close> returns: \<open>None\<close>, a \<open>bool\<close>, a number, a \<open>str\<close>, a \<open>list\<close> or a
  \<open>dict\<close> with text keys (in the order of the document).
\<close>

datatype json =
    JNull
  | JBool bool
  | JNum rat
  | JStr string
  | JArr "json list"
  | JObj "(string \<times> json) list"

datatype exn =
    FileNotFoundError
  | PermissionError
  | JSONDecodeError
  | ValueError
  | TypeError
  | AttributeError
  | KeyError
  | EOFError
  | OverflowError

datatype 'a result = Return 'a | Raise exn

text \<open>A cell and a file: CSV rows are written by \<open>csv.writer\<close>, the rest by \<open>json.dump\<close>.\<close>

datatype cell = CText string | CNum rat

datatype content =
    Garbage string
  | Json json
  | Csv "cell list list"

text \<open>
  The lines the program prints, one constructor for each \<open>print\<close> of the source (and one
  for the prompt of \<open>input\<close>), with the values its text is formatted from.
\<close>

datatype msg =
    Prompt string
  | MovedCorrupted string
  | CouldNotMove
  | InvalidDateFormat
  | InvalidAmount
  | ExpenseAdded
  | FailedToSave exn
  | CouldNotRead exn
  | NoExpensesYet
  | TableRule
  | TableHeader
  | TableRow json json rat json
  | TableTotal rat
  | BlankLine
  | InvalidMonthYear
  | Title string int
  | NoExpensesFound
  | CategoryLine string rat
  | TitleRule
  | TotalLine rat
  | ExportedJson string
  | FailedExportJson exn
  | ExportedCsv string
  | FailedExportCsv exn

text \<open>
  The world: the files of the working directory, what the operating system permits on
  them, the lines waiting on standard input, the lines printed so far, and the clock
  (\<open>clock w n\<close> is the time of the \<open>n\<close>-th reading).
\<close>

record world =
  files :: "string \<rightharpoonup> content"
  can_read :: "string \<Rightarrow> bool"
  can_write :: "string \<Rightarrow> bool"
  can_rename :: "string \<Rightarrow> bool"
  stdin :: "string list"
  stdout :: "msg list"
  clock :: "nat \<Rightarrow> datetime"
  ticks :: nat

definition EXPENSES_FILE :: string where
  "EXPENSES_FILE = ''expenses.json''"

definition print :: "msg \<Rightarrow> world \<Rightarrow> world" where
  "print m w = w\<lparr>stdout := stdout w @ [m]\<rparr>"

text \<open>\<open>input(prompt)\<close>: the next line of standard input, \<open>EOFError\<close> when there is none.\<close>

definition input :: "string \<Rightarrow> world \<Rightarrow> string result \<times> world" where
  "input p w =
     (case stdin w of
        [] \<Rightarrow> (Raise EOFError, print (Prompt p) w)
      | l # ls \<Rightarrow> (Return l, (print (Prompt p) w)\<lparr>stdin := ls\<rparr>))"

text \<open>\<open>datetime.now()\<close>.\<close>

definition now :: "world \<Rightarrow> datetime \<times> world" where
  "now w = (clock w (ticks w), w\<lparr>ticks := Suc (ticks w)\<rparr>)"

text \<open>\<open>os.path.exists\<close>, \<open>open(name, "r")\<close> with \<open>json.load\<close>, \<open>open(name, "w")\<close> with the
  writer's output, and \<open>os.rename\<close>.\<close>

definition path_exists :: "world \<Rightarrow> string \<Rightarrow> bool" where
  "path_exists w name = (files w name \<noteq> None)"

definition read_json :: "string \<Rightarrow> world \<Rightarrow> json result" where
  "read_json name w =
     (case files w name of
        None \<Rightarrow> Raise FileNotFoundError
      | Some c \<Rightarrow>
          if can_read w name then (case c of Json v \<Rightarrow> Return v | _ \<Rightarrow> Raise JSONDecodeError)
          else Raise PermissionError)"

definition write_file :: "string \<Rightarrow> content \<Rightarrow> world \<Rightarrow> unit result \<times> world" where
  "write_file name c w =
     (if can_write w name then (Return (), w\<lparr>files := (files w)(name \<mapsto> c)\<rparr>)
      else (Raise PermissionError, w))"

definition rename :: "string \<Rightarrow> string \<Rightarrow> world \<Rightarrow> unit result \<times> world" where
  "rename src dst w =
     (case files w src of
        None \<Rightarrow> (Raise FileNotFoundError, w)
      | Some c \<Rightarrow>
          if can_rename w src then (Return (), w\<lparr>files := (files w)(src := None, dst \<mapsto> c)\<rparr>)
          else (Raise PermissionError, w))"

subsection \<open>JSON storage helpers\<close>

text \<open>
  \<open>ensure_expenses_file\<close>, lines 50--73. \<open>read_checked\<close> is the body of its outer \<open>try\<close>
  (lines 59--62) and \<open>backup_corrupted\<close> its inner \<open>try\<close> with the handler (lines 65--71);
  neither write of the empty list (lines 53--54, 72--73) stands inside a \<open>try\<close>.
\<close>

definition backup_name :: "datetime \<Rightarrow> string" where
  "backup_name t = ''expenses_corrupted_backup_'' @ stamp t @ ''.json''"

definition read_checked :: "world \<Rightarrow> json result" where
  "read_checked w =
     (case read_json EXPENSES_FILE w of
        Raise e \<Rightarrow> Raise e
      | Return v \<Rightarrow> (case v of JArr xs \<Rightarrow> Return v | _ \<Rightarrow> Raise ValueError))"

definition backup_corrupted :: "world \<Rightarrow> world" where
  "backup_corrupted w =
     (case now w of
        (t, w1) \<Rightarrow>
          (case rename EXPENSES_FILE (backup_name t) w1 of
             (Return u, w2) \<Rightarrow> print (MovedCorrupted (backup_name t)) w2
           | (Raise e, w2) \<Rightarrow> print CouldNotMove w2))"

definition ensure_expenses_file :: "world \<Rightarrow> unit result \<times> world" where
  "ensure_expenses_file w =
     (if \<not> path_exists w EXPENSES_FILE then write_file EXPENSES_FILE (Json (JArr [])) w
      else
        (case read_checked w of
           Return v \<Rightarrow> (Return (), w)
         | Raise e \<Rightarrow> write_file EXPENSES_FILE (Json (JArr [])) (backup_corrupted w)))"

text \<open>\<open>load_expenses\<close>, lines 75--78, and \<open>save_expenses\<close>, lines 80--82.\<close>

definition load_expenses :: "world \<Rightarrow> json result \<times> world" where
  "load_expenses w =
     (case ensure_expenses_file w of
        (Raise e, w1) \<Rightarrow> (Raise e, w1)
      | (Return u, w1) \<Rightarrow> (read_json EXPENSES_FILE w1, w1))"

definition save_expenses :: "json \<Rightarrow> world \<Rightarrow> unit result \<times> world" where
  "save_expenses expenses w = write_file EXPENSES_FILE (Json expenses) w"

subsection \<open>\<open>add_expense\<close>\<close>

text \<open>
  The arguments are \<open>None\<close> or text (a numeric \<open>amount\<close> is passed as the text \<open>str\<close> makes
  of it, line 118). Lines 94--98 are \<open>read_date\<close>, lines 109--112 \<open>read_category\<close>, lines
  115--118 \<open>read_amount\<close>, lines 120--126 \<open>parse_amount\<close>, lines 129--130 and 137
  \<open>read_description\<close>; \<open>build_entry\<close> is lines 93--138 and returns the entry, or \<open>None\<close>
  where the source prints a complaint and returns \<open>False\<close>.
\<close>

definition today :: "world \<Rightarrow> date \<times> world" where
  "today w = (case now w of (t, w1) \<Rightarrow> (dt_date t, w1))"

definition read_date :: "string option \<Rightarrow> world \<Rightarrow> string result \<times> world" where
  "read_date date_str w =
     (case date_str of
        Some (c # cs) \<Rightarrow> (Return (strip (c # cs)), w)
      | _ \<Rightarrow>
          (case input ''Enter date (YYYY-MM-DD) or press Enter for today: '' w of
             (Raise e, w1) \<Rightarrow> (Raise e, w1)
           | (Return l, w1) \<Rightarrow>
               if strip l = [] then (case today w1 of (d, w2) \<Rightarrow> (Return (isoformat d), w2))
               else (Return (strip l), w1)))"

definition read_category :: "string option \<Rightarrow> world \<Rightarrow> string result \<times> world" where
  "read_category category w =
     (case category of
        Some (c # cs) \<Rightarrow> (Return (c # cs), w)
      | _ \<Rightarrow>
          (case input ''Enter category (e.g., Food, Travel, Shopping, Bills): '' w of
             (Raise e, w1) \<Rightarrow> (Raise e, w1)
           | (Return l, w1) \<Rightarrow> (Return (if strip l = [] then ''Misc'' else strip l), w1)))"

definition read_amount :: "string option \<Rightarrow> world \<Rightarrow> string result \<times> world" where
  "read_amount amount w =
     (case amount of
        None \<Rightarrow>
          (case input ''Enter amount: '' w of
             (Raise e, w1) \<Rightarrow> (Raise e, w1)
           | (Return l, w1) \<Rightarrow> (Return (strip l), w1))
      | Some a \<Rightarrow> (Return a, w))"

definition parse_amount :: "(string \<Rightarrow> rat option) \<Rightarrow> string \<Rightarrow> rat option" where
  "parse_amount flt amount_str =
     (case flt amount_str of
        None \<Rightarrow> None
      | Some amt \<Rightarrow> if amt < 0 then None else Some amt)"

definition read_description :: "string option \<Rightarrow> world \<Rightarrow> string result \<times> world" where
  "read_description description w =
     (case description of
        None \<Rightarrow>
          (case input ''Enter description (optional): '' w of
             (Raise e, w1) \<Rightarrow> (Raise e, w1)
           | (Return l, w1) \<Rightarrow> (Return (strip l), w1))
      | Some d \<Rightarrow> (Return d, w))"

definition make_entry :: "date \<Rightarrow> string \<Rightarrow> rat \<Rightarrow> string \<Rightarrow> json" where
  "make_entry parsed_date category amt description =
     JObj [(''date'', JStr (isoformat parsed_date)),
           (''category'', JStr category),
           (''amount'', JNum (round2 amt)),
           (''description'', JStr description)]"

definition build_entry ::
  "(string \<Rightarrow> rat option) \<Rightarrow> string option \<Rightarrow> string option \<Rightarrow> string option \<Rightarrow>
     string option \<Rightarrow> world \<Rightarrow> json option result \<times> world" where
  "build_entry flt date_str category amount description w =
     (case read_date date_str w of
        (Raise e, w1) \<Rightarrow> (Raise e, w1)
      | (Return ds, w1) \<Rightarrow>
          (case strptime ds of
             None \<Rightarrow> (Return None, print InvalidDateFormat w1)
           | Some parsed_date \<Rightarrow>
               (case read_category category w1 of
                  (Raise e, w2) \<Rightarrow> (Raise e, w2)
                | (Return cat, w2) \<Rightarrow>
                    (case read_amount amount w2 of
                       (Raise e, w3) \<Rightarrow> (Raise e, w3)
                     | (Return amount_str, w3) \<Rightarrow>
                         (case parse_amount flt amount_str of
                            None \<Rightarrow> (Return None, print InvalidAmount w3)
                          | Some amt \<Rightarrow>
                              (case read_description description w3 of
                                 (Raise e, w4) \<Rightarrow> (Raise e, w4)
                               | (Return desc, w4) \<Rightarrow>
                                   (Return (Some (make_entry parsed_date cat amt desc)), w4)))))))"

text \<open>Lines 142--144, the body of the last \<open>try\<close>: \<open>append\<close> is a method of lists only.\<close>

definition append_and_save :: "json \<Rightarrow> world \<Rightarrow> unit result \<times> world" where
  "append_and_save entry w =
     (case load_expenses w of
        (Raise e, w1) \<Rightarrow> (Raise e, w1)
      | (Return v, w1) \<Rightarrow>
          (case v of
             JArr expenses \<Rightarrow> save_expenses (JArr (expenses @ [entry])) w1
           | _ \<Rightarrow> (Raise AttributeError, w1)))"

definition add_expense ::
  "(string \<Rightarrow> rat option) \<Rightarrow> string option \<Rightarrow> string option \<Rightarrow> string option \<Rightarrow>
     string option \<Rightarrow> world \<Rightarrow> bool result \<times> world" where
  "add_expense flt date_str category amount description w =
     (case build_entry flt date_str category amount description w of
        (Raise e, w1) \<Rightarrow> (Raise e, w1)
      | (Return None, w1) \<Rightarrow> (Return False, w1)
      | (Return (Some entry), w1) \<Rightarrow>
          (case append_and_save entry w1 of
             (Return u, w2) \<Rightarrow> (Return True, print ExpenseAdded w2)
           | (Raise e, w2) \<Rightarrow> (Return False, print (FailedToSave e) w2)))"

subsection \<open>\<open>view_expenses\<close>\<close>

text \<open>
  A \<open>dict\<close> that \<open>json.load\<close> returns has each key once; \<open>dict_get\<close> is \<open>e.get(key, default)\<close>
  on a dict, \<open>float_of\<close> is \<open>float(v)\<close> on a JSON value and \<open>float_or_zero\<close> the \<open>try\<close> around
  it (lines 188--191 and 248--251). A JSON number beyond the range of a \<open>float\<close> is an
  \<open>int\<close>, and \<open>float\<close> of an \<open>int\<close> raises \<open>OverflowError\<close> from \<open>2 ** 1024 - 2 ** 970\<close> on
  (the first integer that does not round to a finite double), for either sign.
\<close>

definition float_limit :: rat where
  "float_limit = 2 ^ 1024 - 2 ^ 970"

definition dict_get :: "(string \<times> json) list \<Rightarrow> string \<Rightarrow> json \<Rightarrow> json" where
  "dict_get kvs k d = (case map_of kvs k of Some v \<Rightarrow> v | None \<Rightarrow> d)"

definition float_of :: "(string \<Rightarrow> rat option) \<Rightarrow> json \<Rightarrow> rat result" where
  "float_of flt v =
     (case v of
        JNum r \<Rightarrow> if \<bar>r\<bar> < float_limit then Return r else Raise OverflowError
      | JBool b \<Rightarrow> Return (if b then 1 else 0)
      | JStr s \<Rightarrow> (case flt s of Some r \<Rightarrow> Return r | None \<Rightarrow> Raise ValueError)
      | _ \<Rightarrow> Raise TypeError)"

definition float_or_zero :: "(string \<Rightarrow> rat option) \<Rightarrow> json \<Rightarrow> rat" where
  "float_or_zero flt v = (case float_of flt v of Return r \<Rightarrow> r | Raise e \<Rightarrow> 0)"

text \<open>
  \<open>parse_safe\<close>, lines 164--168: \<open>entry_date\<close> is the body of its \<open>try\<close>, which raises unless
  the entry is a dict whose \<open>"date"\<close> is text that \<open>strptime\<close> accepts.
\<close>

definition entry_date :: "json \<Rightarrow> date option" where
  "entry_date d =
     (case d of
        JObj kvs \<Rightarrow> (case map_of kvs ''date'' of Some (JStr s) \<Rightarrow> strptime s | _ \<Rightarrow> None)
      | _ \<Rightarrow> None)"

definition parse_safe :: "json \<Rightarrow> date" where
  "parse_safe d = (case entry_date d of Some dt \<Rightarrow> dt | None \<Rightarrow> date_min)"

text \<open>Line 170: \<open>sorted\<close> is stable, as \<open>sort_key\<close> is.\<close>

definition sort_for_display :: "json list \<Rightarrow> json list" where
  "sort_for_display expenses = sort_key parse_safe expenses"

text \<open>
  The loop of lines 182--193. \<open>get\<close> is a method of dicts only, and a width in a format
  (\<^verbatim>\<open>{d:10}\<close>) is a \<open>TypeError\<close> for \<open>None\<close>, a list and a dict.
\<close>

definition takes_width :: "json \<Rightarrow> bool" where
  "takes_width v = (case v of JNull \<Rightarrow> False | JArr xs \<Rightarrow> False | JObj kvs \<Rightarrow> False | _ \<Rightarrow> True)"

fun print_rows ::
  "(string \<Rightarrow> rat option) \<Rightarrow> json list \<Rightarrow> rat \<Rightarrow> world \<Rightarrow> rat result \<times> world" where
  "print_rows flt [] tot w = (Return tot, w)"
| "print_rows flt (e # es) tot w =
     (case e of
        JObj kvs \<Rightarrow>
          (let d = dict_get kvs ''date'' (JStr []);
               c = dict_get kvs ''category'' (JStr []);
               a = dict_get kvs ''amount'' (JNum 0);
               desc = dict_get kvs ''description'' (JStr []);
               amt = float_or_zero flt a
           in if takes_width d \<and> takes_width c
              then print_rows flt es (tot + amt) (print (TableRow d c amt desc) w)
              else (Raise TypeError, w))
      | _ \<Rightarrow> (Raise AttributeError, w))"

text \<open>
  \<open>view_expenses\<close>, lines 157--197. What \<open>load_expenses\<close> returns is a list (lemma
  \<open>load_expenses_list\<close> below), so the last case is never taken.
\<close>

definition view_expenses :: "(string \<Rightarrow> rat option) \<Rightarrow> world \<Rightarrow> unit result \<times> world" where
  "view_expenses flt w =
     (case load_expenses w of
        (Raise e, w1) \<Rightarrow> (Return (), print (CouldNotRead e) w1)
      | (Return v, w1) \<Rightarrow>
          (case v of
             JArr expenses \<Rightarrow>
               (let expenses_sorted = sort_for_display expenses in
                if expenses_sorted = [] then (Return (), print NoExpensesYet w1)
                else
                  (case print_rows flt expenses_sorted 0
                          (print TableRule (print TableHeader (print TableRule w1))) of
                     (Raise e, w2) \<Rightarrow> (Raise e, w2)
                   | (Return tot, w2) \<Rightarrow>
                       (Return (), print BlankLine (print (TableTotal tot) (print TableRule w2)))))
           | _ \<Rightarrow> (Raise TypeError, w1)))"

subsection \<open>\<open>generate_monthly_summary\<close>\<close>

text \<open>
  The dict \<open>summary\<close> is a list of (key, value) pairs in the order of insertion, which is
  the order in which Python iterates a dict: \<open>summary[k] = v\<close> replaces the value of a key
  that is there and appends a key that is new (\<open>AList.update\<close>), and \<open>summary.get(k, 0.0)\<close>
  is \<open>summary_get\<close>. A list or a dict is no dict key (\<open>TypeError\<close>, line 252). Keys are
  compared as JSON values; where Python identifies keys that are not text (\<open>1\<close> and
  \<open>True\<close>), line 262 raises whichever way.
\<close>

definition hashable :: "json \<Rightarrow> bool" where
  "hashable v = (case v of JArr xs \<Rightarrow> False | JObj kvs \<Rightarrow> False | _ \<Rightarrow> True)"

definition summary_get :: "(json \<times> rat) list \<Rightarrow> json \<Rightarrow> rat" where
  "summary_get summary k = (case map_of summary k of Some v \<Rightarrow> v | None \<Rightarrow> 0)"

text \<open>Lines 241--245: the date of an entry, \<open>None\<close> where the loop says \<open>continue\<close>.\<close>

definition date_of :: "json \<Rightarrow> date option" where
  "date_of d_str = (case d_str of JStr s \<Rightarrow> strptime s | _ \<Rightarrow> None)"

text \<open>The loop of lines 238--253, from the values of \<open>summary\<close> and \<open>total\<close> so far.\<close>

fun aggregate ::
  "(string \<Rightarrow> rat option) \<Rightarrow> int \<Rightarrow> int \<Rightarrow> json list \<Rightarrow> (json \<times> rat) list \<Rightarrow> rat \<Rightarrow>
     ((json \<times> rat) list \<times> rat) result" where
  "aggregate flt month year [] summary tot = Return (summary, tot)"
| "aggregate flt month year (e # es) summary tot =
     (case e of
        JObj kvs \<Rightarrow>
          (case date_of (dict_get kvs ''date'' (JStr [])) of
             None \<Rightarrow> aggregate flt month year es summary tot
           | Some (y, m, d) \<Rightarrow>
               if int y = year \<and> int m = month then
                 (let category = dict_get kvs ''category'' (JStr ''Misc'');
                      amt = float_or_zero flt (dict_get kvs ''amount'' (JNum 0))
                  in if hashable category
                     then aggregate flt month year es
                            (AList.update category (summary_get summary category + amt) summary)
                            (tot + amt)
                     else Raise TypeError)
               else aggregate flt month year es summary tot)
      | _ \<Rightarrow> Raise AttributeError)"

text \<open>
  Line 262: the items sorted by the lower-case key; \<open>lower\<close> is a method of text only. Past
  this line every key is text, and \<open>text_items\<close> are the items with their keys as text.
\<close>

definition is_text :: "json \<Rightarrow> bool" where
  "is_text v = (case v of JStr s \<Rightarrow> True | _ \<Rightarrow> False)"

definition text_items :: "(json \<times> rat) list \<Rightarrow> (string \<times> rat) list" where
  "text_items summary =
     concat (map (\<lambda>(k, v). case k of JStr s \<Rightarrow> [(s, v)] | _ \<Rightarrow> []) summary)"

definition display_order :: "(string \<times> rat) list \<Rightarrow> (string \<times> rat) list" where
  "display_order items = sort_key (\<lambda>x. lower (fst x)) items"

definition print_categories :: "(string \<times> rat) list \<Rightarrow> world \<Rightarrow> world" where
  "print_categories items w = foldl (\<lambda>w1 (cat, amt). print (CategoryLine cat amt) w1) w items"

text \<open>Lines 268--283, the JSON export, and lines 285--297, the CSV export.\<close>

definition export_json_file ::
  "int \<Rightarrow> int \<Rightarrow> (string \<times> rat) list \<Rightarrow> rat \<Rightarrow> world \<Rightarrow> world" where
  "export_json_file month year items tot w =
     (case now w of
        (t, w1) \<Rightarrow>
          (let out = JObj [(''month'', JNum (of_int month)),
                           (''month_name'', JStr (month_name month)),
                           (''year'', JNum (of_int year)),
                           (''categories'', JObj (map (\<lambda>(k, v). (k, JNum (round2 v))) items)),
                           (''total'', JNum (round2 tot)),
                           (''generated_at'', JStr (datetime_isoformat t))];
               filename = ''summary_'' @ month_name month @ ''_'' @ show_int year @ ''.json''
           in case write_file filename (Json out) w1 of
                (Return u, w2) \<Rightarrow> print (ExportedJson filename) w2
              | (Raise e, w2) \<Rightarrow> print (FailedExportJson e) w2))"

definition csv_rows :: "(string \<times> rat) list \<Rightarrow> rat \<Rightarrow> cell list list" where
  "csv_rows items tot =
     [[CText ''Category'', CText ''Amount'']]
       @ map (\<lambda>(k, v). [CText k, CNum (round2 v)]) items
       @ [[], [CText ''Total'', CNum (round2 tot)]]"

definition csv_filename :: "int \<Rightarrow> int \<Rightarrow> string" where
  "csv_filename month year = ''summary_'' @ month_name month @ ''_'' @ show_int year @ ''.csv''"

definition export_csv_file ::
  "int \<Rightarrow> int \<Rightarrow> (string \<times> rat) list \<Rightarrow> rat \<Rightarrow> world \<Rightarrow> world" where
  "export_csv_file month year items tot w =
     (case write_file (csv_filename month year) (Csv (csv_rows items tot)) w of
        (Return u, w1) \<Rightarrow> print (ExportedCsv (csv_filename month year)) w1
      | (Raise e, w1) \<Rightarrow> print (FailedExportCsv e) w1)"

text \<open>Lines 258--265: the summary on the console.\<close>

definition display :: "(json \<times> rat) list \<Rightarrow> rat \<Rightarrow> world \<Rightarrow> unit result \<times> world" where
  "display summary tot w =
     (if summary = [] then (Return (), print NoExpensesFound w)
      else if list_all (\<lambda>x. is_text (fst x)) summary then
        (Return (),
         print (TotalLine tot)
           (print TitleRule (print_categories (display_order (text_items summary)) w)))
      else (Raise AttributeError, w))"

text \<open>
  \<open>generate_monthly_summary\<close> from line 221 on, for a month and a year that are given as
  integers (lines 206--219 ask the console for them when one is \<open>None\<close>). The function
  returns nothing: the summary is what it prints and exports. What \<open>load_expenses\<close>
  returns is a list, so the last case is never taken.
\<close>

definition generate_monthly_summary ::
  "(string \<Rightarrow> rat option) \<Rightarrow> int \<Rightarrow> int \<Rightarrow> bool \<Rightarrow> bool \<Rightarrow> world \<Rightarrow> unit result \<times> world" where
  "generate_monthly_summary flt month year export_json export_csv w =
     (if \<not> (1 \<le> month \<and> month \<le> 12) then (Return (), print InvalidMonthYear w)
      else
        (case load_expenses w of
           (Raise e, w1) \<Rightarrow> (Return (), print (CouldNotRead e) w1)
         | (Return v, w1) \<Rightarrow>
             (case v of
                JArr expenses \<Rightarrow>
                  (case aggregate flt month year expenses [] 0 of
                     Raise e \<Rightarrow> (Raise e, w1)
                   | Return (summary, tot) \<Rightarrow>
                       (case display summary tot (print (Title (month_name month) year) w1) of
                          (Raise e, w2) \<Rightarrow> (Raise e, w2)
                        | (Return u, w2) \<Rightarrow>
                            (let items = text_items summary;
                                 w3 = (if export_json \<and> summary \<noteq> []
                                       then export_json_file month year items tot w2 else w2);
                                 w4 = (if export_csv \<and> summary \<noteq> []
                                       then export_csv_file month year items tot w3 else w3)
                             in (Return (), w4))))
              | _ \<Rightarrow> (Raise TypeError, w1))))"

subsection \<open>Predicates of the specification and sample data\<close>

text \<open>
  An entry falls in a month when it is a dict whose \<open>"date"\<close> parses to a date of that
  month and year (the test of lines 241--246); its category is line 247.
\<close>

definition in_month :: "int \<Rightarrow> int \<Rightarrow> json \<Rightarrow> bool" where
  "in_month month year e =
     (case e of
        JObj kvs \<Rightarrow>
          (case date_of (dict_get kvs ''date'' (JStr [])) of
             Some (y, m, d) \<Rightarrow> int y = year \<and> int m = month
           | None \<Rightarrow> False)
      | _ \<Rightarrow> False)"

definition category_of :: "json \<Rightarrow> json" where
  "category_of e = (case e of JObj kvs \<Rightarrow> dict_get kvs ''category'' (JStr ''Misc'') | _ \<Rightarrow> JNull)"

definition amount_of :: "json \<Rightarrow> json" where
  "amount_of e = (case e of JObj kvs \<Rightarrow> dict_get kvs ''amount'' (JNum 0) | _ \<Rightarrow> JNull)"

definition is_dict :: "json \<Rightarrow> bool" where
  "is_dict e = (case e of JObj kvs \<Rightarrow> True | _ \<Rightarrow> False)"

text \<open>
  The amount the loops count for an entry (lines 186--191 and 249--251), and an entry
  whose amount is missing or is no number for \<open>float\<close>: a text it rejects, a value that is
  no number, or an integer beyond its range.
\<close>

definition counted_amount :: "(string \<Rightarrow> rat option) \<Rightarrow> json \<Rightarrow> rat" where
  "counted_amount flt e = float_or_zero flt (amount_of e)"

definition amount_unusable :: "(string \<Rightarrow> rat option) \<Rightarrow> json \<Rightarrow> bool" where
  "amount_unusable flt e =
     (case e of
        JObj kvs \<Rightarrow>
          (case map_of kvs ''amount'' of
             None \<Rightarrow> True
           | Some a \<Rightarrow> (case float_of flt a of Raise ex \<Rightarrow> True | Return r \<Rightarrow> False))
      | _ \<Rightarrow> False)"

text \<open>What one round of the loop of lines 240--253 does to \<open>summary\<close> for a matching entry.\<close>

definition add_entry :: "(string \<Rightarrow> rat option) \<Rightarrow> (json \<times> rat) list \<Rightarrow> json \<Rightarrow> (json \<times> rat) list" where
  "add_entry flt summary e =
     AList.update (category_of e) (summary_get summary (category_of e) + counted_amount flt e)
       summary"

text \<open>
  The entries \<open>view_expenses\<close> can print (dicts whose date and category take a width), and
  the row it prints for one (line 193).
\<close>

definition printable :: "json \<Rightarrow> bool" where
  "printable e =
     (case e of
        JObj kvs \<Rightarrow>
          takes_width (dict_get kvs ''date'' (JStr [])) \<and>
          takes_width (dict_get kvs ''category'' (JStr []))
      | _ \<Rightarrow> False)"

definition table_row :: "(string \<Rightarrow> rat option) \<Rightarrow> json \<Rightarrow> msg" where
  "table_row flt e =
     (case e of
        JObj kvs \<Rightarrow>
          TableRow (dict_get kvs ''date'' (JStr [])) (dict_get kvs ''category'' (JStr []))
            (counted_amount flt e) (dict_get kvs ''description'' (JStr []))
      | _ \<Rightarrow> BlankLine)"

text \<open>The document is valid when lines 59--62 read it without an exception.\<close>

definition valid_document :: "world \<Rightarrow> bool" where
  "valid_document w = (case read_checked w of Return v \<Rightarrow> True | Raise e \<Rightarrow> False)"

text \<open>The entries a well-formed document holds: dicts whose category, if any, is text.\<close>

definition well_formed :: "json \<Rightarrow> bool" where
  "well_formed e = (is_dict e \<and> is_text (category_of e))"

text \<open>
  The order in which the keys of a dict were first inserted: each key once, at the place
  of its first occurrence.
\<close>

definition first_occurrences :: "'a list \<Rightarrow> 'a list" where
  "first_occurrences xs = rev (remdups (rev xs))"

text \<open>
  The order the specification asks of the CSV rows: by lower-case category name (a
  definition from the specification's words, compared with \<open>csv_rows\<close> below).
\<close>

definition spec_csv_rows :: "(string \<times> rat) list \<Rightarrow> rat \<Rightarrow> cell list list" where
  "spec_csv_rows items tot = csv_rows (display_order items) tot"

text \<open>
  Sample data: a clock, a world in which every operation is permitted, an entry as
  \<open>add_expense\<close> stores it, and the value of \<open>float\<close> on the amounts of the examples.
\<close>

definition sample_clock :: "nat \<Rightarrow> datetime" where
  "sample_clock n =
     \<lparr>dt_date = (2025, 3, 7), dt_hour = 9, dt_minute = 5, dt_second = n mod 60,
      dt_microsecond = 0\<rparr>"

definition sample_world :: "(string \<rightharpoonup> content) \<Rightarrow> string list \<Rightarrow> world" where
  "sample_world fs lines =
     \<lparr>files = fs, can_read = (\<lambda>name. True), can_write = (\<lambda>name. True),
      can_rename = (\<lambda>name. True), stdin = lines, stdout = [], clock = sample_clock,
      ticks = 0\<rparr>"

definition read_only :: "world \<Rightarrow> world" where
  "read_only w = w\<lparr>can_write := (\<lambda>name. False), can_rename := (\<lambda>name. False)\<rparr>"

definition entry :: "string \<Rightarrow> string \<Rightarrow> rat \<Rightarrow> json" where
  "entry d c a =
     JObj [(''date'', JStr d), (''category'', JStr c), (''amount'', JNum a),
           (''description'', JStr [])]"

definition sample_float :: "string \<Rightarrow> rat option" where
  "sample_float s = map_of [(''100'', 100), (''12.346'', 6173 / 500), (''0'', 0), (''-5'', - 5)] s"

text \<open>
  The categories of the specification's example of the order (Travel, food, Bills), as
  entries of one month, and two entries of that month whose amounts are no numbers for
  \<open>float\<close>: the integer \<open>10 ** 400\<close> and the text \<open>"abc"\<close>.
\<close>

definition sample_unsorted :: "json list" where
  "sample_unsorted =
     [entry ''2025-01-05'' ''Travel'' 30, entry ''2025-01-06'' ''food'' 10,
      entry ''2025-01-07'' ''Bills'' 5]"

definition sample_huge :: rat where
  "sample_huge = 10 ^ 400"

definition sample_overflow :: json where
  "sample_overflow = entry ''2025-01-21'' ''Rent'' sample_huge"

definition sample_bad_amount :: json where
  "sample_bad_amount =
     JObj [(''date'', JStr ''2025-01-20''), (''category'', JStr ''Bills''),
           (''amount'', JStr ''abc''), (''description'', JStr [])]"

text \<open>An entry whose date is no date, and one dated \<open>date.min\<close>.\<close>

definition sample_bad_date :: json where
  "sample_bad_date =
     JObj [(''date'', JStr ''bad-date''), (''category'', JStr ''Food''), (''amount'', JNum 7),
           (''description'', JStr [])]"

definition sample_first_day :: json where
  "sample_first_day = entry ''0001-01-01'' ''Food'' 3"

definition sample_expenses :: "json list" where
  "sample_expenses =
     [entry ''2025-01-05'' ''Food'' 100, entry ''2025-01-20'' ''Food'' 50,
      entry ''2025-02-01'' ''Travel'' 30]"

section \<open>Properties\<close>

subsection \<open>The range of a float\<close>

text \<open>
  The limit as a numeral, for evaluation, and the two sides of it: a counted amount is
  the JSON number itself below the limit and 0 from the limit on.
\<close>

lemma float_limit_numeral [code]:
  "float_limit =
     179769313486231580793728971405303415079934132710037826936173778980444968292764750946649017977587207096330286416692887910946555547851940402630657488671505820681908902000708383676273854845817711531764475730270069855571366959622842914819860834936475292719074168444365510704342711559699508093042880177904174497792"
  by (simp add: float_limit_def)

lemma float_of_in_range:
  "\<bar>r\<bar> < float_limit \<Longrightarrow> float_of flt (JNum r) = Return r"
  by (simp add: float_of_def)

lemma float_of_overflow:
  "float_limit \<le> \<bar>r\<bar> \<Longrightarrow> float_of flt (JNum r) = Raise OverflowError"
  by (simp add: float_of_def)

lemma float_or_zero_overflow:
  "float_limit \<le> \<bar>r\<bar> \<Longrightarrow> float_or_zero flt (JNum r) = 0"
  by (simp add: float_or_zero_def float_of_overflow)

lemma float_limit_below: "float_limit \<le> \<bar>sample_huge\<bar>"
proof -
  have "float_limit \<le> 2 ^ 1024"
    by (simp add: float_limit_def)
  also have "(2::rat) ^ 1024 \<le> 2 ^ 1200"
    by (rule power_increasing) simp_all
  also have "(2::rat) ^ 1200 = 8 ^ 400"
    by (simp flip: power_mult)
  also have "(8::rat) ^ 400 \<le> 10 ^ 400"
    by (rule power_mono) simp_all
  finally show ?thesis
    by (simp only: sample_huge_def power_abs abs_numeral)
qed

subsection \<open>The world and the storage helpers\<close>

lemma print_simps [simp]:
  "files (print m w) = files w"
  "can_read (print m w) = can_read w"
  "can_write (print m w) = can_write w"
  "can_rename (print m w) = can_rename w"
  "stdin (print m w) = stdin w"
  "stdout (print m w) = stdout w @ [m]"
  "clock (print m w) = clock w"
  "ticks (print m w) = ticks w"
  by (simp_all add: print_def)

lemma read_json_print [simp]: "read_json name (print m w) = read_json name w"
  by (simp add: read_json_def split: option.splits)

lemma write_file_ok:
  "can_write w name \<Longrightarrow> write_file name c w = (Return (), w\<lparr>files := (files w)(name \<mapsto> c)\<rparr>)"
  by (simp add: write_file_def)

lemma backup_name_neq [simp]:
  "backup_name t \<noteq> EXPENSES_FILE"
  "EXPENSES_FILE \<noteq> backup_name t"
  by (simp_all add: backup_name_def EXPENSES_FILE_def)

lemma backup_corrupted_perms [simp]:
  "can_write (backup_corrupted w) = can_write w"
  "can_read (backup_corrupted w) = can_read w"
  by (simp_all add: backup_corrupted_def now_def rename_def split: option.splits)

lemma backup_corrupted_file:
  assumes "files w EXPENSES_FILE = Some c"
  shows "backup_corrupted w =
           (if can_rename w EXPENSES_FILE
            then print (MovedCorrupted (backup_name (clock w (ticks w))))
                   (w\<lparr>ticks := Suc (ticks w),
                      files := (files w)(EXPENSES_FILE := None,
                                 backup_name (clock w (ticks w)) \<mapsto> c)\<rparr>)
            else print CouldNotMove (w\<lparr>ticks := Suc (ticks w)\<rparr>))"
  using assms by (simp add: backup_corrupted_def now_def rename_def)

lemma valid_document_iff:
  "valid_document w \<longleftrightarrow>
     (\<exists>xs. files w EXPENSES_FILE = Some (Json (JArr xs)) \<and> can_read w EXPENSES_FILE)"
  by (auto simp add: valid_document_def read_checked_def read_json_def
      split: option.splits content.splits json.splits result.splits)

text \<open>The three ways through \<open>ensure_expenses_file\<close>.\<close>

lemma ensure_cases:
  "ensure_expenses_file w =
     (if valid_document w then (Return (), w)
      else if files w EXPENSES_FILE = None then write_file EXPENSES_FILE (Json (JArr [])) w
      else write_file EXPENSES_FILE (Json (JArr [])) (backup_corrupted w))"
  unfolding valid_document_iff
  by (auto simp add: ensure_expenses_file_def path_exists_def read_checked_def read_json_def
      split: option.splits content.splits json.splits)

lemma ensure_valid: "valid_document w \<Longrightarrow> ensure_expenses_file w = (Return (), w)"
  by (simp add: ensure_cases)

lemma ensure_missing:
  "files w EXPENSES_FILE = None \<Longrightarrow>
     ensure_expenses_file w = write_file EXPENSES_FILE (Json (JArr [])) w"
  by (simp add: ensure_cases valid_document_iff)

lemma ensure_corrupted:
  "files w EXPENSES_FILE = Some c \<Longrightarrow> \<not> valid_document w \<Longrightarrow>
     ensure_expenses_file w = write_file EXPENSES_FILE (Json (JArr [])) (backup_corrupted w)"
  by (simp add: ensure_cases)

lemma load_expenses_valid:
  assumes "files w EXPENSES_FILE = Some (Json (JArr xs))" and "can_read w EXPENSES_FILE"
  shows "load_expenses w = (Return (JArr xs), w)"
proof -
  from assms have "valid_document w"
    by (auto simp add: valid_document_iff)
  with assms show ?thesis
    by (simp add: load_expenses_def ensure_valid read_json_def)
qed

text \<open>What \<open>load_expenses\<close> returns is a list.\<close>

lemma load_expenses_list:
  assumes "load_expenses w = (Return v, w')"
  shows "\<exists>xs. v = JArr xs"
  using assms
  by (auto simp add: load_expenses_def ensure_cases valid_document_iff write_file_def
      read_json_def
      split: if_splits prod.splits result.splits option.splits content.splits)

lemma load_sample:
  "load_expenses (sample_world [EXPENSES_FILE \<mapsto> Json (JArr xs)] ls) =
     (Return (JArr xs), sample_world [EXPENSES_FILE \<mapsto> Json (JArr xs)] ls)"
  by (rule load_expenses_valid) (simp_all add: sample_world_def)

subsection \<open>Storage: initialisation and recovery\<close>

text \<open>
  Claim C3, as the code has it. \<open>ensure_expenses_file\<close> returns without an exception
  whenever \<open>expenses.json\<close> can be written or already holds a readable list, and then the
  document holds a list. A failure to read or to parse the document is caught, and a
  failure of the rename is caught and reported on the console (\<open>CouldNotMove\<close>); the only
  exception that reaches the caller is that of the write of the fresh empty document.
\<close>

theorem ensure_expenses_file_raises_only_on_write:
  assumes "can_write w EXPENSES_FILE \<or> valid_document w"
  shows "fst (ensure_expenses_file w) = Return () \<and>
         (\<exists>xs. files (snd (ensure_expenses_file w)) EXPENSES_FILE = Some (Json (JArr xs))) \<and>
         (path_exists w EXPENSES_FILE \<and> \<not> valid_document w \<and> \<not> can_rename w EXPENSES_FILE \<longrightarrow>
            stdout (snd (ensure_expenses_file w)) = stdout w @ [CouldNotMove])"
proof (cases "valid_document w")
  case True
  then show ?thesis
    by (auto simp add: ensure_valid valid_document_iff)
next
  case False
  with assms have wr: "can_write w EXPENSES_FILE" by simp
  show ?thesis
  proof (cases "files w EXPENSES_FILE")
    case None
    then show ?thesis
      using wr by (simp add: ensure_missing write_file_ok path_exists_def)
  next
    case (Some c)
    then show ?thesis
      using wr False
      by (simp add: ensure_corrupted write_file_ok backup_corrupted_file path_exists_def)
  qed
qed

text \<open>
  Witness for C3: a document that does not parse, in a directory where the rename is
  refused and the write is permitted. The failed rename is reported, nothing is raised.
\<close>

theorem ensure_expenses_file_raises_only_on_write_witness:
  "(can_write ((sample_world [EXPENSES_FILE \<mapsto> Garbage ''{oops''] [])
                 \<lparr>can_rename := (\<lambda>name. False)\<rparr>) EXPENSES_FILE
      \<or> valid_document ((sample_world [EXPENSES_FILE \<mapsto> Garbage ''{oops''] [])
                          \<lparr>can_rename := (\<lambda>name. False)\<rparr>)) \<and>
   fst (ensure_expenses_file ((sample_world [EXPENSES_FILE \<mapsto> Garbage ''{oops''] [])
                                \<lparr>can_rename := (\<lambda>name. False)\<rparr>)) = Return () \<and>
   stdout (snd (ensure_expenses_file ((sample_world [EXPENSES_FILE \<mapsto> Garbage ''{oops''] [])
                                        \<lparr>can_rename := (\<lambda>name. False)\<rparr>))) = [CouldNotMove]"
  using ensure_expenses_file_raises_only_on_write
    [of "(sample_world [EXPENSES_FILE \<mapsto> Garbage ''{oops''] [])\<lparr>can_rename := (\<lambda>name. False)\<rparr>"]
  by (simp add: sample_world_def path_exists_def valid_document_iff)

text \<open>
  Counterexample to C3 as the specification states it: in a directory that cannot be
  written, \<open>ensure_expenses_file\<close> raises \<open>PermissionError\<close> to its caller when the document
  is missing, when it does not parse and when it is not a list.
\<close>

theorem ensure_expenses_file_raises_counterexample:
  "fst (ensure_expenses_file (read_only (sample_world Map.empty []))) = Raise PermissionError \<and>
   fst (ensure_expenses_file (read_only (sample_world [EXPENSES_FILE \<mapsto> Garbage ''{oops''] [])))
     = Raise PermissionError \<and>
   fst (ensure_expenses_file
          ((sample_world [EXPENSES_FILE \<mapsto> Json (JObj [])] [])\<lparr>can_write := (\<lambda>name. False)\<rparr>))
     = Raise PermissionError"
  by (simp add: ensure_cases valid_document_iff read_only_def sample_world_def write_file_def)

text \<open>
  The other direction, for every world: when the document is not a readable list and
  \<open>expenses.json\<close> cannot be written, the exception of the write reaches the caller.
\<close>

lemma ensure_expenses_file_write_failure:
  assumes "\<not> valid_document w" and "\<not> can_write w EXPENSES_FILE"
  shows "fst (ensure_expenses_file w) = Raise PermissionError"
  using assms by (simp add: ensure_cases write_file_def)

text \<open>
  Claim C4. When the document exists and is not a readable list (it does not parse, or
  its top-level value is no list) and the operating system permits the rename and the
  write, \<open>ensure_expenses_file\<close> moves it, unchanged, to
  \<open>expenses_corrupted_backup_<YYYYMMDD_HHMMSS>.json\<close>, stamped with the time of the
  detection, writes the empty list to \<open>expenses.json\<close>, and the next \<open>load_expenses\<close>
  returns the empty list.
\<close>

theorem corrupted_document_is_backed_up:
  assumes "files w EXPENSES_FILE = Some c" and "\<not> valid_document w"
    and "can_rename w EXPENSES_FILE" and "can_write w EXPENSES_FILE"
    and "can_read w EXPENSES_FILE"
  shows "fst (ensure_expenses_file w) = Return () \<and>
         files (snd (ensure_expenses_file w))
           (''expenses_corrupted_backup_'' @ stamp (clock w (ticks w)) @ ''.json'') = Some c \<and>
         files (snd (ensure_expenses_file w)) EXPENSES_FILE = Some (Json (JArr [])) \<and>
         fst (load_expenses (snd (ensure_expenses_file w))) = Return (JArr [])"
proof -
  let ?w' = "snd (ensure_expenses_file w)"
  have e: "ensure_expenses_file w =
             (Return (),
              (backup_corrupted w)
                \<lparr>files := (files (backup_corrupted w))(EXPENSES_FILE \<mapsto> Json (JArr []))\<rparr>)"
    using assms by (simp add: ensure_corrupted write_file_ok)
  have f: "files ?w' EXPENSES_FILE = Some (Json (JArr []))"
    and r: "can_read ?w' EXPENSES_FILE"
    using assms by (simp_all add: e)
  have b: "files ?w' (backup_name (clock w (ticks w))) = Some c"
    using assms by (simp add: e backup_corrupted_file)
  from f r have "load_expenses ?w' = (Return (JArr []), ?w')"
    by (rule load_expenses_valid)
  with e f b show ?thesis by (simp add: backup_name_def)
qed

text \<open>
  Witness for C4: a document whose top-level value is a dict, found at 2025-03-07
  09:05:00, ends as \<open>expenses_corrupted_backup_20250307_090500.json\<close>.
\<close>

theorem corrupted_document_is_backed_up_witness:
  "files (sample_world [EXPENSES_FILE \<mapsto> Json (JObj [(''a'', JNull)])] []) EXPENSES_FILE
     = Some (Json (JObj [(''a'', JNull)])) \<and>
   \<not> valid_document (sample_world [EXPENSES_FILE \<mapsto> Json (JObj [(''a'', JNull)])] []) \<and>
   files (snd (ensure_expenses_file
                 (sample_world [EXPENSES_FILE \<mapsto> Json (JObj [(''a'', JNull)])] [])))
     ''expenses_corrupted_backup_20250307_090500.json'' = Some (Json (JObj [(''a'', JNull)])) \<and>
   files (snd (ensure_expenses_file
                 (sample_world [EXPENSES_FILE \<mapsto> Json (JObj [(''a'', JNull)])] [])))
     EXPENSES_FILE = Some (Json (JArr [])) \<and>
   fst (load_expenses (snd (ensure_expenses_file
          (sample_world [EXPENSES_FILE \<mapsto> Json (JObj [(''a'', JNull)])] [])))) = Return (JArr [])"
proof -
  have s: "stamp (sample_clock 0) = ''20250307_090500''"
    by code_simp
  show ?thesis
    using corrupted_document_is_backed_up
      [of "sample_world [EXPENSES_FILE \<mapsto> Json (JObj [(''a'', JNull)])] []"
          "Json (JObj [(''a'', JNull)])"]
    by (simp add: sample_world_def valid_document_iff s)
qed

subsection \<open>The monthly summary\<close>

text \<open>
  The loop of \<open>generate_monthly_summary\<close> on well-formed entries: it skips the entries of
  other months and folds \<open>add_entry\<close> over the matching ones, so the keys of the summary
  are the categories in the order of their first occurrence, each value is the sum of the
  counted amounts of its category, and the total is the sum of all counted amounts.
\<close>

lemma aggregate_skip:
  assumes "\<forall>e \<in> set xs. is_dict e \<and> \<not> in_month month year e"
  shows "aggregate flt month year xs summary tot = Return (summary, tot)"
  using assms
  by (induction xs) (auto simp add: is_dict_def in_month_def split: json.splits option.splits)

lemma hashable_text: "is_text k \<Longrightarrow> hashable k"
  by (cases k) (simp_all add: is_text_def hashable_def)

lemma aggregate_step:
  assumes "well_formed e"
  shows "aggregate flt month year (e # es) summary tot =
           (if in_month month year e
            then aggregate flt month year es (add_entry flt summary e) (tot + counted_amount flt e)
            else aggregate flt month year es summary tot)"
  using assms
  by (cases e)
     (auto simp add: well_formed_def is_dict_def in_month_def category_of_def amount_of_def
       add_entry_def counted_amount_def hashable_text Let_def split: option.splits)

lemma aggregate_well_formed:
  assumes "\<forall>e \<in> set xs. well_formed e"
  shows "aggregate flt month year xs summary tot =
           Return (foldl (add_entry flt) summary (filter (in_month month year) xs),
                   tot + sum_list (map (counted_amount flt) (filter (in_month month year) xs)))"
  using assms
proof (induction xs arbitrary: summary tot)
  case Nil
  show ?case by simp
next
  case (Cons e es)
  then have "well_formed e" and "\<forall>x \<in> set es. well_formed x" by simp_all
  then show ?case
    using Cons.IH by (simp add: aggregate_step add.assoc del: aggregate.simps)
qed

lemma first_occurrences_snoc:
  "first_occurrences (xs @ [x]) =
     (if x \<in> set xs then first_occurrences xs else first_occurrences xs @ [x])"
  by (simp add: first_occurrences_def)

lemma set_first_occurrences [simp]: "set (first_occurrences xs) = set xs"
  by (simp add: first_occurrences_def)

lemma keys_add_entries:
  "map fst (foldl (add_entry flt) [] es) = first_occurrences (map category_of es)"
proof (induction es rule: rev_induct)
  case Nil
  show ?case by (simp add: first_occurrences_def)
next
  case (snoc e es)
  have "set (map fst (foldl (add_entry flt) [] es)) = set (map category_of es)"
    by (simp only: snoc.IH set_first_occurrences)
  then show ?case
    using snoc.IH
    by (simp add: add_entry_def update_keys first_occurrences_snoc del: set_map)
qed

lemma summary_get_update:
  "summary_get (AList.update k v s) k' = (if k' = k then v else summary_get s k')"
  by (simp add: summary_get_def update_conv')

lemma summary_get_add_entries:
  "summary_get (foldl (add_entry flt) s es) k =
     summary_get s k + sum_list (map (counted_amount flt) (filter (\<lambda>e. category_of e = k) es))"
  by (induction es arbitrary: s) (auto simp add: add_entry_def summary_get_update)

text \<open>
  Claim C8. For a month outside 1..12, whatever the year, the flags and the world (so
  whatever the collection), \<open>generate_monthly_summary\<close> reports the invalid month on the
  console and returns: the document is not read, no summary is printed and no file is
  written.
\<close>

theorem invalid_month_rejected:
  assumes "month < 1 \<or> 12 < month"
  shows "generate_monthly_summary flt month year export_json export_csv w =
           (Return (), print InvalidMonthYear w)"
  using assms by (auto simp add: generate_monthly_summary_def)

text \<open>Witness for C8: month 13.\<close>

theorem invalid_month_rejected_witness:
  "((13::int) < 1 \<or> 12 < (13::int)) \<and>
   generate_monthly_summary sample_float 13 2025 True True (sample_world Map.empty []) =
     (Return (), print InvalidMonthYear (sample_world Map.empty []))"
  using invalid_month_rejected [of 13 sample_float 2025 True True "sample_world Map.empty []"]
  by simp

text \<open>
  Claim C9. For a valid month and a collection of entries none of which falls in the
  month, the loop ends with the empty summary and the total 0; the function prints the
  title and that no expenses were found, returns without an exception, and, whatever the
  export flags, leaves every file as \<open>load_expenses\<close> left it: nothing is exported and no
  failure of an export is reported.
\<close>

theorem no_match_gives_empty_summary:
  assumes "1 \<le> month \<and> month \<le> 12"
    and "load_expenses w = (Return (JArr expenses), w1)"
    and "\<forall>e \<in> set expenses. is_dict e \<and> \<not> in_month month year e"
  shows "aggregate flt month year expenses [] 0 = Return ([], 0) \<and>
         generate_monthly_summary flt month year export_json export_csv w =
           (Return (), print NoExpensesFound (print (Title (month_name month) year) w1)) \<and>
         files (snd (generate_monthly_summary flt month year export_json export_csv w)) = files w1"
proof -
  have a: "aggregate flt month year expenses [] 0 = Return ([], 0)"
    using assms(3) by (rule aggregate_skip)
  have g: "generate_monthly_summary flt month year export_json export_csv w =
             (Return (), print NoExpensesFound (print (Title (month_name month) year) w1))"
    using assms(1,2) by (simp add: generate_monthly_summary_def a display_def)
  show ?thesis
    by (simp add: a g)
qed

text \<open>Witness for C9: the three sample entries of January and February, asked for March.\<close>

theorem no_match_gives_empty_summary_witness:
  "((1::int) \<le> 3 \<and> (3::int) \<le> 12) \<and>
   load_expenses (sample_world [EXPENSES_FILE \<mapsto> Json (JArr sample_expenses)] []) =
     (Return (JArr sample_expenses), sample_world [EXPENSES_FILE \<mapsto> Json (JArr sample_expenses)] []) \<and>
   aggregate sample_float 3 2025 sample_expenses [] 0 = Return ([], 0) \<and>
   stdout (snd (generate_monthly_summary sample_float 3 2025 True True
                  (sample_world [EXPENSES_FILE \<mapsto> Json (JArr sample_expenses)] []))) =
     [Title ''March'' 2025, NoExpensesFound] \<and>
   files (snd (generate_monthly_summary sample_float 3 2025 True True
                 (sample_world [EXPENSES_FILE \<mapsto> Json (JArr sample_expenses)] []))) =
     [EXPENSES_FILE \<mapsto> Json (JArr sample_expenses)]"
proof -
  have h: "\<forall>e \<in> set sample_expenses. is_dict e \<and> \<not> in_month 3 2025 e"
    by code_simp
  have m: "month_name 3 = ''March''"
    by code_simp
  show ?thesis
    using no_match_gives_empty_summary
      [of 3 "sample_world [EXPENSES_FILE \<mapsto> Json (JArr sample_expenses)] []" sample_expenses
          "sample_world [EXPENSES_FILE \<mapsto> Json (JArr sample_expenses)] []" 2025 sample_float
          True True, OF _ load_sample h]
    by (simp add: load_sample m) (simp add: sample_world_def)
qed

text \<open>
  Claim C5. For the entries 2025-01-05 Food 100, 2025-01-20 Food 50 and 2025-02-01 Travel
  30, the summary of January 2025 is \<open>{Food: 150}\<close> with total 150 and that of February
  2025 is \<open>{Travel: 30}\<close> (with total 30), both as the loop computes them and as the
  function prints them.
\<close>

theorem summarize_example:
  "aggregate flt 1 2025 sample_expenses [] 0 = Return ([(JStr ''Food'', 150)], 150) \<and>
   aggregate flt 2 2025 sample_expenses [] 0 = Return ([(JStr ''Travel'', 30)], 30) \<and>
   stdout (snd (generate_monthly_summary flt 1 2025 False False
                  (sample_world [EXPENSES_FILE \<mapsto> Json (JArr sample_expenses)] []))) =
     [Title ''January'' 2025, CategoryLine ''Food'' 150, TitleRule, TotalLine 150] \<and>
   stdout (snd (generate_monthly_summary flt 2 2025 False False
                  (sample_world [EXPENSES_FILE \<mapsto> Json (JArr sample_expenses)] []))) =
     [Title ''February'' 2025, CategoryLine ''Travel'' 30, TitleRule, TotalLine 30]"
proof -
  have a1: "aggregate flt 1 2025 sample_expenses [] 0 = Return ([(JStr ''Food'', 150)], 150)"
    by code_simp
  have a2: "aggregate flt 2 2025 sample_expenses [] 0 = Return ([(JStr ''Travel'', 30)], 30)"
    by code_simp
  have m: "month_name 1 = ''January''" "month_name 2 = ''February''"
    by code_simp+
  show ?thesis
    by (simp add: a1 a2 m generate_monthly_summary_def load_sample display_def is_text_def
        text_items_def display_order_def print_categories_def)
      (simp add: sample_world_def)
qed

subsection \<open>The exports\<close>

lemma text_items_all_text:
  assumes "list_all (\<lambda>x. is_text (fst x)) summary"
  shows "map (\<lambda>(k, v). (JStr k, v)) (text_items summary) = summary"
  using assms
  by (induction summary) (auto simp add: text_items_def is_text_def split: json.splits)

lemma print_categories_frame [simp]:
  "files (print_categories items w) = files w"
  "can_write (print_categories items w) = can_write w"
  by (induction items arbitrary: w) (simp_all add: print_categories_def split_beta)

lemma display_text:
  assumes "list_all (\<lambda>x. is_text (fst x)) summary"
  shows "fst (display summary tot w) = Return () \<and>
         files (snd (display summary tot w)) = files w \<and>
         can_write (snd (display summary tot w)) = can_write w"
  using assms by (simp add: display_def)

lemma export_json_file_can_write [simp]:
  "can_write (export_json_file month year items tot w) = can_write w"
  by (simp add: export_json_file_def now_def write_file_def Let_def)

lemma export_csv_file_written:
  assumes "can_write w (csv_filename month year)"
  shows "files (export_csv_file month year items tot w) (csv_filename month year) =
           Some (Csv (csv_rows items tot))"
  using assms by (simp add: export_csv_file_def write_file_def)

lemma well_formed_category: "well_formed e \<Longrightarrow> is_text (category_of e)"
  by (simp add: well_formed_def)

text \<open>
  Claim C1, as the code has it. For a valid month and a collection of well-formed
  entries of which at least one falls in the month, the CSV file that
  \<open>generate_monthly_summary\<close> writes holds the header row, one row per category in the
  order of the summary dict, a blank row and the Total row. The order of the summary
  dict is the order in which the categories first occur among the matching entries of
  the collection; the rows are not sorted by name (line 291 iterates \<open>summary.items()\<close>,
  only the console listing of line 262 is sorted).
\<close>

theorem csv_rows_follow_insertion_order:
  assumes "1 \<le> month \<and> month \<le> 12"
    and "load_expenses w = (Return (JArr expenses), w1)"
    and "\<forall>e \<in> set expenses. well_formed e"
    and "\<exists>e \<in> set expenses. in_month month year e"
    and "can_write w1 (csv_filename month year)"
  shows "\<exists>summary tot.
           aggregate flt month year expenses [] 0 = Return (summary, tot) \<and>
           map fst summary =
             first_occurrences (map category_of (filter (in_month month year) expenses)) \<and>
           summary = map (\<lambda>(k, v). (JStr k, v)) (text_items summary) \<and>
           files (snd (generate_monthly_summary flt month year export_json True w))
               (csv_filename month year) =
             Some (Csv ([[CText ''Category'', CText ''Amount'']]
                          @ map (\<lambda>(k, v). [CText k, CNum (round2 v)]) (text_items summary)
                          @ [[], [CText ''Total'', CNum (round2 tot)]]))"
proof -
  let ?matching = "filter (in_month month year) expenses"
  let ?summary = "foldl (add_entry flt) [] ?matching"
  let ?tot = "sum_list (map (counted_amount flt) ?matching)"
  have a: "aggregate flt month year expenses [] 0 = Return (?summary, ?tot)"
    using assms(3) by (simp add: aggregate_well_formed)
  have k: "map fst ?summary = first_occurrences (map category_of ?matching)"
    by (rule keys_add_entries)
  have "set (map fst ?summary) = category_of ` set ?matching"
    by (simp only: k set_first_occurrences set_map)
  then have keys: "fst ` set ?summary = category_of ` set ?matching"
    by simp
  have "category_of ` set ?matching \<noteq> {}"
    using assms(4) by auto
  with keys have ne: "?summary \<noteq> []"
    by auto
  have "\<forall>x \<in> set ?summary. is_text (fst x)"
  proof
    fix x assume "x \<in> set ?summary"
    then have "fst x \<in> category_of ` set ?matching"
      using keys by blast
    then show "is_text (fst x)"
      using assms(3) by (auto simp add: well_formed_category)
  qed
  then have alltext: "list_all (\<lambda>x. is_text (fst x)) ?summary"
    by (simp add: list_all_iff)
  have rt: "?summary = map (\<lambda>(k, v). (JStr k, v)) (text_items ?summary)"
    using alltext by (simp add: text_items_all_text)
  obtain w2 where d: "display ?summary ?tot (print (Title (month_name month) year) w1) = (Return (), w2)"
    and cw: "can_write w2 = can_write w1"
    using display_text [OF alltext, of ?tot "print (Title (month_name month) year) w1"]
    by (cases "display ?summary ?tot (print (Title (month_name month) year) w1)") simp
  have "files (snd (generate_monthly_summary flt month year export_json True w))
          (csv_filename month year) = Some (Csv (csv_rows (text_items ?summary) ?tot))"
    using assms(1,2,5) ne
    by (simp add: generate_monthly_summary_def a d cw export_csv_file_written Let_def)
  with a k rt show ?thesis
    by (simp add: csv_rows_def)
qed

text \<open>
  Witness for C1: the categories Travel, food and Bills, first met in this order, are
  the keys of the summary in this order.
\<close>

theorem csv_rows_follow_insertion_order_witness:
  "((1::int) \<le> 1 \<and> (1::int) \<le> 12) \<and>
   load_expenses (sample_world [EXPENSES_FILE \<mapsto> Json (JArr sample_unsorted)] []) =
     (Return (JArr sample_unsorted),
      sample_world [EXPENSES_FILE \<mapsto> Json (JArr sample_unsorted)] []) \<and>
   can_write (sample_world [EXPENSES_FILE \<mapsto> Json (JArr sample_unsorted)] [])
     (csv_filename 1 2025) \<and>
   aggregate sample_float 1 2025 sample_unsorted [] 0 =
     Return ([(JStr ''Travel'', 30), (JStr ''food'', 10), (JStr ''Bills'', 5)], 45) \<and>
   first_occurrences (map category_of (filter (in_month 1 2025) sample_unsorted)) =
     [JStr ''Travel'', JStr ''food'', JStr ''Bills'']"
proof -
  have wf: "\<forall>e \<in> set sample_unsorted. well_formed e"
    by code_simp
  have ex: "\<exists>e \<in> set sample_unsorted. in_month 1 2025 e"
    by code_simp
  have cw: "can_write (sample_world [EXPENSES_FILE \<mapsto> Json (JArr sample_unsorted)] [])
              (csv_filename 1 2025)"
    by (simp add: sample_world_def)
  have a: "aggregate sample_float 1 2025 sample_unsorted [] 0 =
             Return ([(JStr ''Travel'', 30), (JStr ''food'', 10), (JStr ''Bills'', 5)], 45)"
    by code_simp
  show ?thesis
    using csv_rows_follow_insertion_order
      [of 1 "sample_world [EXPENSES_FILE \<mapsto> Json (JArr sample_unsorted)] []" sample_unsorted
          "sample_world [EXPENSES_FILE \<mapsto> Json (JArr sample_unsorted)] []" 2025 sample_float
          False, OF _ load_sample wf ex cw]
    by (simp add: a load_sample cw)
qed

text \<open>
  Counterexample to C1 as the specification states it: for the entries Travel 30, food
  10 and Bills 5 of January 2025 the CSV rows are Travel, food, Bills, while the order by
  lower-case name is Bills, food, Travel.
\<close>

theorem csv_rows_not_sorted_counterexample:
  "files (snd (generate_monthly_summary sample_float 1 2025 False True
                 (sample_world [EXPENSES_FILE \<mapsto> Json (JArr sample_unsorted)] [])))
     ''summary_January_2025.csv'' =
     Some (Csv [[CText ''Category'', CText ''Amount''],
                [CText ''Travel'', CNum 30], [CText ''food'', CNum 10], [CText ''Bills'', CNum 5],
                [], [CText ''Total'', CNum 45]]) \<and>
   spec_csv_rows [(''Travel'', 30), (''food'', 10), (''Bills'', 5)] 45 =
     [[CText ''Category'', CText ''Amount''],
      [CText ''Bills'', CNum 5], [CText ''food'', CNum 10], [CText ''Travel'', CNum 30],
      [], [CText ''Total'', CNum 45]] \<and>
   files (snd (generate_monthly_summary sample_float 1 2025 False True
                 (sample_world [EXPENSES_FILE \<mapsto> Json (JArr sample_unsorted)] [])))
     ''summary_January_2025.csv'' \<noteq>
     Some (Csv (spec_csv_rows [(''Travel'', 30), (''food'', 10), (''Bills'', 5)] 45))"
proof -
  have a: "aggregate sample_float 1 2025 sample_unsorted [] 0 =
             Return ([(JStr ''Travel'', 30), (JStr ''food'', 10), (JStr ''Bills'', 5)], 45)"
    by code_simp
  have n: "csv_filename 1 2025 = ''summary_January_2025.csv''"
    by code_simp
  have m: "month_name 1 = ''January''"
    by code_simp
  have r: "csv_rows [(''Travel'', 30), (''food'', 10), (''Bills'', 5)] 45 =
             [[CText ''Category'', CText ''Amount''],
              [CText ''Travel'', CNum 30], [CText ''food'', CNum 10], [CText ''Bills'', CNum 5],
              [], [CText ''Total'', CNum 45]]"
    by code_simp
  have s: "spec_csv_rows [(''Travel'', 30), (''food'', 10), (''Bills'', 5)] 45 =
             [[CText ''Category'', CText ''Amount''],
              [CText ''Bills'', CNum 5], [CText ''food'', CNum 10], [CText ''Travel'', CNum 30],
              [], [CText ''Total'', CNum 45]]"
    by code_simp
  have t: "text_items [(JStr ''Travel'', 30), (JStr ''food'', 10), (JStr ''Bills'', 5)] =
             [(''Travel'', 30), (''food'', 10), (''Bills'', 5)]"
    by (simp add: text_items_def)
  have f: "files (snd (generate_monthly_summary sample_float 1 2025 False True
                 (sample_world [EXPENSES_FILE \<mapsto> Json (JArr sample_unsorted)] [])))
            ''summary_January_2025.csv'' =
           Some (Csv (csv_rows [(''Travel'', 30), (''food'', 10), (''Bills'', 5)] 45))"
    by (simp add: generate_monthly_summary_def load_sample a display_def is_text_def t
          export_csv_file_def write_file_def n)
       (simp add: sample_world_def)
  show ?thesis
    by (simp add: f r s)
qed

subsection \<open>Amounts that are no numbers\<close>

lemma print_rows_printable:
  assumes "\<forall>e \<in> set es. printable e"
  shows "print_rows flt es tot w =
           (Return (tot + sum_list (map (counted_amount flt) es)),
            w\<lparr>stdout := stdout w @ map (table_row flt) es\<rparr>)"
  using assms
proof (induction es arbitrary: tot w)
  case Nil
  show ?case by simp
next
  case (Cons e es)
  then obtain kvs where e: "e = JObj kvs"
    by (cases e) (simp_all add: printable_def)
  from Cons.prems have p: "takes_width (dict_get kvs ''date'' (JStr []))"
    "takes_width (dict_get kvs ''category'' (JStr []))"
    by (simp_all add: e printable_def)
  from Cons.prems have "\<forall>x \<in> set es. printable x" by simp
  then show ?case
    by (simp add: e p Cons.IH table_row_def counted_amount_def amount_of_def print_def Let_def
        add.assoc)
qed

lemma sum_list_sort_key:
  fixes f :: "'a \<Rightarrow> rat"
  shows "sum_list (map f (sort_key k xs)) = sum_list (map f xs)"
proof -
  have "sum_mset (image_mset f (mset (sort_key k xs))) = sum_mset (image_mset f (mset xs))"
    by simp
  then show ?thesis
    by (simp only: sum_mset_sum_list flip: mset_map)
qed

lemma view_expenses_printable:
  assumes "load_expenses w = (Return (JArr es), w1)" and "es \<noteq> []"
    and "\<forall>e \<in> set es. printable e"
  shows "stdout (snd (view_expenses flt w)) =
           stdout w1 @ [TableRule, TableHeader, TableRule]
             @ map (table_row flt) (sort_for_display es)
             @ [TableRule, TableTotal (sum_list (map (counted_amount flt) es)), BlankLine]"
proof -
  have "length (sort_for_display es) = length es"
    by (simp add: sort_for_display_def)
  with assms(2) have ne: "sort_for_display es \<noteq> []"
    by (metis length_0_conv)
  have "\<forall>e \<in> set (sort_for_display es). printable e"
    using assms(3) by (simp add: sort_for_display_def)
  then have r: "\<And>tot w'. print_rows flt (sort_for_display es) tot w' =
           (Return (tot + sum_list (map (counted_amount flt) es)),
            w'\<lparr>stdout := stdout w' @ map (table_row flt) (sort_for_display es)\<rparr>)"
    by (simp add: print_rows_printable) (simp add: sort_for_display_def sum_list_sort_key)
  show ?thesis
    using assms(1) ne by (simp add: view_expenses_def Let_def r)
qed

lemma summary_get_empty [simp]: "summary_get [] k = 0"
  by (simp add: summary_get_def)

lemma summary_get_add_entry:
  "summary_get (add_entry flt s e) k =
     summary_get s k + (if category_of e = k then counted_amount flt e else 0)"
  by (simp add: add_entry_def summary_get_update)

lemma unusable_counts_zero: "amount_unusable flt e \<Longrightarrow> counted_amount flt e = 0"
  by (cases e)
     (auto simp add: amount_unusable_def counted_amount_def amount_of_def dict_get_def
       float_or_zero_def float_of_def split: option.splits result.splits)

text \<open>
  Claim C10. Let a collection of well-formed, printable entries hold an entry \<open>e\<close> of the
  requested month whose amount is missing or is not accepted by \<open>float\<close> (a text it
  rejects, a value that is no number, an integer beyond its range). Then the loop of
  \<open>generate_monthly_summary\<close> ends without an exception, the category of \<open>e\<close> is a key of
  the summary, and the value of that key and the grand total are the sums over the other
  entries alone: \<open>e\<close> counts as 0. \<open>view_expenses\<close> prints a total that is the sum over the
  other entries alone, too.
\<close>

theorem unusable_amount_counts_as_zero:
  assumes "\<forall>x \<in> set (xs @ e # ys). well_formed x \<and> printable x"
    and "in_month month year e"
    and "amount_unusable flt e"
    and "load_expenses w = (Return (JArr (xs @ e # ys)), w1)"
  shows "(\<exists>summary tot.
            aggregate flt month year (xs @ e # ys) [] 0 = Return (summary, tot) \<and>
            category_of e \<in> fst ` set summary \<and>
            summary_get summary (category_of e) =
              sum_list (map (counted_amount flt)
                (filter (\<lambda>x. category_of x = category_of e)
                   (filter (in_month month year) (xs @ ys)))) \<and>
            tot = sum_list (map (counted_amount flt) (filter (in_month month year) (xs @ ys)))) \<and>
         stdout (snd (view_expenses flt w)) =
           stdout w1 @ [TableRule, TableHeader, TableRule]
             @ map (table_row flt) (sort_for_display (xs @ e # ys))
             @ [TableRule, TableTotal (sum_list (map (counted_amount flt) (xs @ ys))), BlankLine]"
proof -
  let ?all = "xs @ e # ys"
  let ?matching = "filter (in_month month year) ?all"
  let ?summary = "foldl (add_entry flt) [] ?matching"
  let ?tot = "sum_list (map (counted_amount flt) ?matching)"
  have z: "counted_amount flt e = 0"
    using assms(3) by (rule unusable_counts_zero)
  have a: "aggregate flt month year ?all [] 0 = Return (?summary, ?tot)"
    using assms(1) by (simp add: aggregate_well_formed)
  have "set (map fst ?summary) = category_of ` set ?matching"
    by (simp only: keys_add_entries set_first_occurrences set_map)
  then have k: "category_of e \<in> fst ` set ?summary"
    using assms(2) by simp
  have v: "summary_get ?summary (category_of e) =
             sum_list (map (counted_amount flt)
               (filter (\<lambda>x. category_of x = category_of e)
                  (filter (in_month month year) (xs @ ys))))"
    using assms(2) by (simp add: summary_get_add_entries summary_get_add_entry z)
  have t: "?tot = sum_list (map (counted_amount flt) (filter (in_month month year) (xs @ ys)))"
    using assms(2) by (simp add: z)
  have "stdout (snd (view_expenses flt w)) =
           stdout w1 @ [TableRule, TableHeader, TableRule]
             @ map (table_row flt) (sort_for_display ?all)
             @ [TableRule, TableTotal (sum_list (map (counted_amount flt) ?all)), BlankLine]"
    using assms(4) _ _
  proof (rule view_expenses_printable)
    show "?all \<noteq> []" by simp
    show "\<forall>x \<in> set ?all. printable x" using assms(1) by blast
  qed
  then have p: "stdout (snd (view_expenses flt w)) =
           stdout w1 @ [TableRule, TableHeader, TableRule]
             @ map (table_row flt) (sort_for_display ?all)
             @ [TableRule, TableTotal (sum_list (map (counted_amount flt) (xs @ ys))), BlankLine]"
    by (simp add: z)
  from a k v t have "\<exists>summary tot.
            aggregate flt month year ?all [] 0 = Return (summary, tot) \<and>
            category_of e \<in> fst ` set summary \<and>
            summary_get summary (category_of e) =
              sum_list (map (counted_amount flt)
                (filter (\<lambda>x. category_of x = category_of e)
                   (filter (in_month month year) (xs @ ys)))) \<and>
            tot = sum_list (map (counted_amount flt) (filter (in_month month year) (xs @ ys)))"
    by blast
  with p show ?thesis
    by blast
qed

text \<open>
  Witness for C10: Food 100 and a Bills entry with the amount \<open>"abc"\<close>; the summary is
  \<open>{Food: 100, Bills: 0}\<close> with total 100, and the listing ends with the total 100. An
  entry with the amount \<open>10 ** 400\<close> is such an entry, too, and counts as 0.
\<close>

theorem unusable_amount_counts_as_zero_witness:
  "in_month 1 2025 sample_bad_amount \<and>
   amount_unusable sample_float sample_bad_amount \<and>
   load_expenses (sample_world [EXPENSES_FILE \<mapsto>
       Json (JArr [entry ''2025-01-05'' ''Food'' 100, sample_bad_amount])] []) =
     (Return (JArr [entry ''2025-01-05'' ''Food'' 100, sample_bad_amount]),
      sample_world [EXPENSES_FILE \<mapsto>
        Json (JArr [entry ''2025-01-05'' ''Food'' 100, sample_bad_amount])] []) \<and>
   aggregate sample_float 1 2025 [entry ''2025-01-05'' ''Food'' 100, sample_bad_amount] [] 0 =
     Return ([(JStr ''Food'', 100), (JStr ''Bills'', 0)], 100) \<and>
   stdout (snd (view_expenses sample_float (sample_world [EXPENSES_FILE \<mapsto>
       Json (JArr [entry ''2025-01-05'' ''Food'' 100, sample_bad_amount])] []))) =
     [TableRule, TableHeader, TableRule,
      TableRow (JStr ''2025-01-05'') (JStr ''Food'') 100 (JStr []),
      TableRow (JStr ''2025-01-20'') (JStr ''Bills'') 0 (JStr []),
      TableRule, TableTotal 100, BlankLine] \<and>
   amount_unusable sample_float sample_overflow \<and>
   counted_amount sample_float sample_overflow = 0"
proof -
  let ?food = "entry ''2025-01-05'' ''Food'' 100"
  have ov: "amount_unusable sample_float sample_overflow"
    by (simp add: amount_unusable_def sample_overflow_def entry_def
        float_of_overflow [OF float_limit_below])
  have oz: "counted_amount sample_float sample_overflow = 0"
    by (simp add: counted_amount_def amount_of_def dict_get_def sample_overflow_def entry_def
        float_or_zero_overflow [OF float_limit_below])
  have wf: "\<forall>x \<in> set ([?food] @ sample_bad_amount # []). well_formed x \<and> printable x"
    by code_simp
  have im: "in_month 1 2025 sample_bad_amount"
    by code_simp
  have un: "amount_unusable sample_float sample_bad_amount"
    by code_simp
  have ld: "load_expenses (sample_world [EXPENSES_FILE \<mapsto>
                Json (JArr ([?food] @ sample_bad_amount # []))] []) =
              (Return (JArr ([?food] @ sample_bad_amount # [])),
               sample_world [EXPENSES_FILE \<mapsto>
                 Json (JArr ([?food] @ sample_bad_amount # []))] [])"
    by (rule load_sample)
  have a: "aggregate sample_float 1 2025 [?food, sample_bad_amount] [] 0 =
           Return ([(JStr ''Food'', 100), (JStr ''Bills'', 0)], 100)"
    by code_simp
  have so: "sort_for_display [?food, sample_bad_amount] = [?food, sample_bad_amount]"
    by code_simp
  have ro: "table_row sample_float ?food =
              TableRow (JStr ''2025-01-05'') (JStr ''Food'') 100 (JStr [])"
    "table_row sample_float sample_bad_amount =
              TableRow (JStr ''2025-01-20'') (JStr ''Bills'') 0 (JStr [])"
    by code_simp+
  have ca: "counted_amount sample_float ?food = 100"
    by code_simp
  have st: "stdout (sample_world [EXPENSES_FILE \<mapsto>
                Json (JArr [?food, sample_bad_amount])] []) = []"
    by (simp add: sample_world_def)
  show ?thesis
    using unusable_amount_counts_as_zero [OF wf im un ld]
    by (simp add: im un a so ro ca st ov oz load_sample del: aggregate.simps)
qed

subsection \<open>The order of the listing\<close>

text \<open>A date that \<open>strptime\<close> accepts is not before \<open>date.min\<close>.\<close>

lemma digit_val_simps [simp]:
  "digit_val CHR ''0'' = 0" "digit_val CHR ''1'' = 1" "digit_val CHR ''2'' = 2"
  "digit_val CHR ''3'' = 3" "digit_val CHR ''4'' = 4" "digit_val CHR ''5'' = 5"
  "digit_val CHR ''6'' = 6" "digit_val CHR ''7'' = 7" "digit_val CHR ''8'' = 8"
  "digit_val CHR ''9'' = 9"
  by code_simp+

lemma month_field_pos: "month_field s = Some m \<Longrightarrow> 1 \<le> m"
  by (auto simp add: month_field_def split: list.splits if_splits)

lemma day_field_pos: "day_field s = Some d \<Longrightarrow> 1 \<le> d"
  by (auto simp add: day_field_def is_digit_def split: list.splits if_splits)

lemma strptime_min:
  assumes "strptime s = Some dt"
  shows "date_min \<le> dt"
proof -
  from assms obtain y m d ms ds where dt: "dt = (y, m, d)" and y: "1 \<le> y"
    and "month_field ms = Some m" and "day_field ds = Some d"
    by (auto simp add: strptime_def Let_def
        split: list.splits if_splits option.splits prod.splits)
  then have "1 \<le> m" and "1 \<le> d"
    by (auto dest: month_field_pos day_field_pos)
  with dt y show ?thesis
    by (auto simp add: date_min_def less_eq_prod_def)
qed

lemma parse_safe_min: "date_min \<le> parse_safe e"
  by (auto simp add: parse_safe_def entry_date_def strptime_min
      split: option.splits json.splits)

text \<open>
  Claim C7, as the code has it. \<open>sorted(expenses, key=parse_safe)\<close> never raises and
  returns the entries of the collection in ascending order of their keys, entries of
  equal key in the order of the collection. The key of an entry whose date does not
  parse is \<open>date.min\<close>, 0001-01-01: such an entry stands before every entry whose date
  parses to a later day than 0001-01-01.
\<close>

theorem sort_for_display_order:
  "sorted (map parse_safe (sort_for_display xs)) \<and>
   mset (sort_for_display xs) = mset xs \<and>
   (\<forall>k. filter (\<lambda>x. parse_safe x = k) (sort_for_display xs) = filter (\<lambda>x. parse_safe x = k) xs) \<and>
   (\<forall>i j d. i < length xs \<and> j < length xs \<and>
      entry_date (sort_for_display xs ! i) = None \<and>
      entry_date (sort_for_display xs ! j) = Some d \<and> d \<noteq> date_min \<longrightarrow> i < j)"
proof -
  let ?ys = "sort_for_display xs"
  have s: "sorted (map parse_safe ?ys)"
    by (simp add: sort_for_display_def)
  have l: "length ?ys = length xs"
    by (simp add: sort_for_display_def)
  have "i < j" if "i < length xs" and "j < length xs" and n: "entry_date (?ys ! i) = None"
    and v: "entry_date (?ys ! j) = Some d" and d: "d \<noteq> date_min" for i j d
  proof (rule ccontr)
    assume "\<not> i < j"
    then have "j \<le> i" by simp
    with s that(1) l have "map parse_safe ?ys ! j \<le> map parse_safe ?ys ! i"
      by (simp add: sorted_iff_nth_mono del: nth_map)
    with that(1,2) l have "parse_safe (?ys ! j) \<le> parse_safe (?ys ! i)"
      by simp
    with n v have "d \<le> date_min"
      by (simp add: parse_safe_def)
    moreover have "date_min \<le> d"
      using parse_safe_min [of "?ys ! j"] v by (simp add: parse_safe_def)
    ultimately show False
      using d by simp
  qed
  then show ?thesis
    using s by (simp add: sort_for_display_def sort_key_stable)
qed

text \<open>Witness for C7: an entry dated \<open>"bad-date"\<close> is moved before one of 2025-01-05.\<close>

theorem sort_for_display_order_witness:
  "sort_for_display [entry ''2025-01-05'' ''Food'' 100, sample_bad_date] =
     [sample_bad_date, entry ''2025-01-05'' ''Food'' 100] \<and>
   entry_date sample_bad_date = None \<and>
   entry_date (entry ''2025-01-05'' ''Food'' 100) = Some (2025, 1, 5)"
proof -
  have a: "sort_for_display [entry ''2025-01-05'' ''Food'' 100, sample_bad_date] =
             [sample_bad_date, entry ''2025-01-05'' ''Food'' 100]"
    by code_simp
  have b: "entry_date sample_bad_date = None"
    by code_simp
  have c: "entry_date (entry ''2025-01-05'' ''Food'' 100) = Some (2025, 1, 5)"
    by code_simp
  from sort_for_display_order [of "[entry ''2025-01-05'' ''Food'' 100, sample_bad_date]"]
  have "(0::nat) < 1"
    by simp
  with a b c show ?thesis
    by simp
qed

text \<open>
  Counterexample to C7 as the specification states it: an entry dated 0001-01-01 has the
  key of an entry whose date does not parse, and the stable sort leaves the unparsable
  entry behind it.
\<close>

theorem unparsable_after_first_day_counterexample:
  "sort_for_display [sample_first_day, sample_bad_date] = [sample_first_day, sample_bad_date] \<and>
   entry_date (sort_for_display [sample_first_day, sample_bad_date] ! 0) = Some (1, 1, 1) \<and>
   entry_date (sort_for_display [sample_first_day, sample_bad_date] ! 1) = None"
  by code_simp

subsection \<open>Validation and the storage round trip\<close>

text \<open>\<open>round2\<close> is within half a hundredth of its argument and keeps it non-negative.\<close>

lemma round_half_even_near: "\<bar>of_int (round_half_even x) - x\<bar> \<le> 1 / 2"
proof -
  have "of_int \<lfloor>x\<rfloor> \<le> x" and "x < of_int \<lfloor>x\<rfloor> + 1"
    by linarith+
  then show ?thesis
    by (auto simp add: round_half_even_def Let_def)
qed

lemma round2_near: "\<bar>round2 x - x\<bar> \<le> 1 / 200"
proof -
  have "\<bar>of_int (round_half_even (x * 100)) - x * 100\<bar> \<le> 1 / 2"
    by (rule round_half_even_near)
  then show ?thesis
    by (simp add: round2_def abs_le_iff field_simps)
qed

lemma round2_nonneg: "0 \<le> x \<Longrightarrow> 0 \<le> round2 x"
proof -
  assume "0 \<le> x"
  then have "0 \<le> \<lfloor>x * 100\<rfloor>" by simp
  then have "0 \<le> round_half_even (x * 100)"
    by (simp add: round_half_even_def Let_def)
  then show ?thesis
    by (simp add: round2_def)
qed

lemma build_entry_given:
  assumes "ds \<noteq> []" and "strptime (strip ds) = Some parsed_date" and "cat \<noteq> []"
    and "flt amount_str = Some amt" and "0 \<le> amt"
  shows "build_entry flt (Some ds) (Some cat) (Some amount_str) (Some desc) w =
           (Return (Some (make_entry parsed_date cat amt desc)), w)"
  using assms
  by (cases ds; cases cat)
     (simp_all add: build_entry_def read_date_def read_category_def read_amount_def
       parse_amount_def read_description_def)

text \<open>
  Claim C2. For a date text that \<open>strptime\<close> accepts (after \<open>strip\<close>), a non-empty
  category, an amount text that \<open>float\<close> reads as a non-negative number and a description,
  lines 93--138 of \<open>add_expense\<close> build the entry without touching the console or the
  files; its amount is the number rounded to two decimals. Where \<open>expenses.json\<close> can be
  written and read, \<open>save_expenses\<close> of the list of this one entry followed by
  \<open>load_expenses\<close> returns the list of this very entry.
\<close>

theorem validated_entry_round_trip:
  assumes "ds \<noteq> []" and "strptime (strip ds) = Some parsed_date" and "cat \<noteq> []"
    and "flt amount_str = Some amt" and "0 \<le> amt"
    and "can_write w EXPENSES_FILE" and "can_read w EXPENSES_FILE"
  shows "build_entry flt (Some ds) (Some cat) (Some amount_str) (Some desc) w =
           (Return (Some (make_entry parsed_date cat amt desc)), w) \<and>
         fst (save_expenses (JArr [make_entry parsed_date cat amt desc]) w) = Return () \<and>
         fst (load_expenses (snd (save_expenses (JArr [make_entry parsed_date cat amt desc]) w))) =
           Return (JArr [make_entry parsed_date cat amt desc]) \<and>
         make_entry parsed_date cat amt desc =
           JObj [(''date'', JStr (isoformat parsed_date)), (''category'', JStr cat),
                 (''amount'', JNum (round2 amt)), (''description'', JStr desc)] \<and>
         (\<exists>n. round2 amt = of_int n / 100) \<and> \<bar>round2 amt - amt\<bar> \<le> 1 / 200 \<and> 0 \<le> round2 amt"
proof -
  let ?e = "make_entry parsed_date cat amt desc"
  let ?w' = "snd (save_expenses (JArr [?e]) w)"
  have b: "build_entry flt (Some ds) (Some cat) (Some amount_str) (Some desc) w =
             (Return (Some ?e), w)"
    using assms(1-5) by (rule build_entry_given)
  have s: "save_expenses (JArr [?e]) w =
             (Return (), w\<lparr>files := (files w)(EXPENSES_FILE \<mapsto> Json (JArr [?e]))\<rparr>)"
    using assms(6) by (simp add: save_expenses_def write_file_ok)
  have "load_expenses ?w' = (Return (JArr [?e]), ?w')"
    using assms(7) by (intro load_expenses_valid) (simp_all add: s)
  then have l: "fst (load_expenses ?w') = Return (JArr [?e])"
    by simp
  have r: "\<exists>n. round2 amt = of_int n / 100"
    by (auto simp add: round2_def)
  show ?thesis
    using b s l r round2_near [of amt] round2_nonneg [OF assms(5)]
    by (simp add: make_entry_def)
qed

text \<open>
  Witness for C2: the date \<open>" 2025-1-5 "\<close> is stored as \<open>2025-01-05\<close> and the amount 12.346
  as 12.35.
\<close>

theorem validated_entry_round_trip_witness:
  "strptime (strip '' 2025-1-5 '') = Some (2025, 1, 5) \<and>
   sample_float ''12.346'' = Some (6173 / 500) \<and>
   build_entry sample_float (Some '' 2025-1-5 '') (Some ''Food'') (Some ''12.346'') (Some ''lunch'')
       (sample_world Map.empty []) =
     (Return (Some (make_entry (2025, 1, 5) ''Food'' (6173 / 500) ''lunch'')),
      sample_world Map.empty []) \<and>
   make_entry (2025, 1, 5) ''Food'' (6173 / 500) ''lunch'' =
     JObj [(''date'', JStr ''2025-01-05''), (''category'', JStr ''Food''),
           (''amount'', JNum (247 / 20)), (''description'', JStr ''lunch'')] \<and>
   fst (load_expenses (snd (save_expenses
          (JArr [make_entry (2025, 1, 5) ''Food'' (6173 / 500) ''lunch'']) (sample_world Map.empty [])))) =
     Return (JArr [make_entry (2025, 1, 5) ''Food'' (6173 / 500) ''lunch''])"
proof -
  have d: "strptime (strip '' 2025-1-5 '') = Some (2025, 1, 5)"
    by code_simp
  have f: "sample_float ''12.346'' = Some (6173 / 500)"
    by code_simp
  have m: "make_entry (2025, 1, 5) ''Food'' (6173 / 500) ''lunch'' =
             JObj [(''date'', JStr ''2025-01-05''), (''category'', JStr ''Food''),
                   (''amount'', JNum (247 / 20)), (''description'', JStr ''lunch'')]"
    by code_simp
  have p: "can_write (sample_world Map.empty []) EXPENSES_FILE"
    "can_read (sample_world Map.empty []) EXPENSES_FILE"
    by (simp_all add: sample_world_def)
  have h: "'' 2025-1-5 '' \<noteq> []" "''Food'' \<noteq> []" "(0::rat) \<le> 6173 / 500"
    by simp_all
  note t = validated_entry_round_trip
      [where flt = sample_float and amount_str = "''12.346''" and desc = "''lunch''",
       OF h(1) d h(2) f h(3) p]
  from t have b: "build_entry sample_float (Some '' 2025-1-5 '') (Some ''Food'') (Some ''12.346'')
                    (Some ''lunch'') (sample_world Map.empty []) =
                  (Return (Some (make_entry (2025, 1, 5) ''Food'' (6173 / 500) ''lunch'')),
                   sample_world Map.empty [])"
    by (rule conjunct1)
  from t have l: "fst (load_expenses (snd (save_expenses
                    (JArr [make_entry (2025, 1, 5) ''Food'' (6173 / 500) ''lunch''])
                    (sample_world Map.empty [])))) =
                  Return (JArr [make_entry (2025, 1, 5) ''Food'' (6173 / 500) ''lunch''])"
    by blast
  from d f b m l show ?thesis
    by blast
qed

text \<open>
  Claim C6, as the code has it. When the category argument is \<open>None\<close> or empty (the date,
  the amount and the description being given and valid), lines 93--138 of \<open>add_expense\<close>
  ask the console for a category (lines 109--110): with no line on standard input
  \<open>input\<close> raises \<open>EOFError\<close>; otherwise the category of the entry is the reply, stripped,
  and \<open>"Misc"\<close> only when the stripped reply is empty (lines 111--112). The prompt and the
  line read are the only effects.
\<close>

theorem missing_category_is_asked_for:
  assumes "category = None \<or> category = Some []"
    and "ds \<noteq> []" and "strptime (strip ds) = Some parsed_date"
    and "flt amount_str = Some amt" and "0 \<le> amt"
  shows "build_entry flt (Some ds) category (Some amount_str) (Some desc) w =
           (case stdin w of
              [] \<Rightarrow>
                (Raise EOFError,
                 print (Prompt ''Enter category (e.g., Food, Travel, Shopping, Bills): '') w)
            | l # ls \<Rightarrow>
                (Return (Some (make_entry parsed_date
                                 (if strip l = [] then ''Misc'' else strip l) amt desc)),
                 (print (Prompt ''Enter category (e.g., Food, Travel, Shopping, Bills): '') w)
                   \<lparr>stdin := ls\<rparr>))"
  using assms
  by (cases ds)
     (auto simp add: build_entry_def read_date_def read_category_def read_amount_def
       parse_amount_def read_description_def input_def split: list.splits)

text \<open>Witness for C6: an empty category and a blank reply give the category \<open>"Misc"\<close>.\<close>

theorem missing_category_is_asked_for_witness:
  "(Some [] = (None :: string option) \<or> Some [] = Some ([] :: string)) \<and>
   strptime (strip ''2025-01-05'') = Some (2025, 1, 5) \<and>
   sample_float ''100'' = Some 100 \<and>
   fst (build_entry sample_float (Some ''2025-01-05'') (Some []) (Some ''100'') (Some ''tea'')
          (sample_world Map.empty [''  ''])) =
     Return (Some (make_entry (2025, 1, 5) ''Misc'' 100 ''tea'')) \<and>
   stdout (snd (build_entry sample_float (Some ''2025-01-05'') (Some []) (Some ''100'')
                  (Some ''tea'') (sample_world Map.empty [''  '']))) =
     [Prompt ''Enter category (e.g., Food, Travel, Shopping, Bills): '']"
proof -
  have d: "strptime (strip ''2025-01-05'') = Some (2025, 1, 5)"
    by code_simp
  have f: "sample_float ''100'' = Some 100"
    by code_simp
  have s: "strip ''  '' = []"
    by code_simp
  have h: "Some [] = (None :: string option) \<or> Some [] = Some ([] :: string)"
    "''2025-01-05'' \<noteq> []" "(0::rat) \<le> 100"
    by simp_all
  note t = missing_category_is_asked_for
      [where flt = sample_float and amount_str = "''100''" and desc = "''tea''"
         and w = "sample_world Map.empty [''  '']", OF h(1) h(2) d f h(3)]
  have i: "stdin (sample_world Map.empty [''  '']) = [''  '']"
    "stdout (sample_world Map.empty [''  '']) = []"
    by (simp_all add: sample_world_def)
  have b: "fst (build_entry sample_float (Some ''2025-01-05'') (Some []) (Some ''100'')
                  (Some ''tea'') (sample_world Map.empty [''  ''])) =
             Return (Some (make_entry (2025, 1, 5) ''Misc'' 100 ''tea''))"
    and o: "stdout (snd (build_entry sample_float (Some ''2025-01-05'') (Some []) (Some ''100'')
                  (Some ''tea'') (sample_world Map.empty [''  '']))) =
             [Prompt ''Enter category (e.g., Food, Travel, Shopping, Bills): '']"
    by (simp_all add: t i s)
  from h(1) d f b o show ?thesis
    by blast
qed

text \<open>
  Counterexample to C6 as the specification states it: with the category absent and the
  reply \<open>Food\<close> waiting on the console, the entry's category is \<open>Food\<close>, not \<open>Misc\<close>, and the
  console has been used; with no reply waiting, no entry is returned at all.
\<close>

theorem missing_category_not_misc_counterexample:
  "fst (build_entry sample_float (Some ''2025-01-05'') None (Some ''100'') (Some ''tea'')
          (sample_world Map.empty [''Food''])) =
     Return (Some (JObj [(''date'', JStr ''2025-01-05''), (''category'', JStr ''Food''),
                         (''amount'', JNum 100), (''description'', JStr ''tea'')])) \<and>
   stdout (snd (build_entry sample_float (Some ''2025-01-05'') None (Some ''100'') (Some ''tea'')
                  (sample_world Map.empty [''Food'']))) =
     [Prompt ''Enter category (e.g., Food, Travel, Shopping, Bills): ''] \<and>
   stdin (snd (build_entry sample_float (Some ''2025-01-05'') None (Some ''100'') (Some ''tea'')
                 (sample_world Map.empty [''Food'']))) = [] \<and>
   fst (build_entry sample_float (Some ''2025-01-05'') None (Some ''100'') (Some ''tea'')
          (sample_world Map.empty [])) = Raise EOFError"
proof -
  have d: "strptime (strip ''2025-01-05'') = Some (2025, 1, 5)"
    by code_simp
  have f: "sample_float ''100'' = Some 100"
    by code_simp
  have s: "strip ''Food'' = ''Food''"
    by code_simp
  have m: "make_entry (2025, 1, 5) ''Food'' 100 ''tea'' =
             JObj [(''date'', JStr ''2025-01-05''), (''category'', JStr ''Food''),
                   (''amount'', JNum 100), (''description'', JStr ''tea'')]"
    by code_simp
  show ?thesis
    using m
    by (simp add: build_entry_def read_date_def read_category_def read_amount_def
        parse_amount_def read_description_def input_def d f s sample_world_def)
qed

end
